theory Spec2Isabelle
  imports Main "HOL-Library.Finite_Map" "HOL-Library.Sublist"
begin

section \<open>The Task Computer of golem/task/taskcomputer.py\<close>

text \<open>
  The class \<open>TaskComputer\<close> is embedded as a record of its attributes, and each method as
  a function from the state before the call to the state after it, together with the list
  of calls the method makes on its collaborators (task server, monitor, logger, worker
  threads), in the order the source makes them. A method that can raise returns a sum:
  \<open>Inl\<close> carries the exception, and the state and the calls are those reached when it is
  raised.

  Times (\<open>time.time()\<close>, deadlines, timeouts) are values of a type \<open>'t\<close> of which the
  definitions use only \<open>-\<close>, \<open>0\<close> and \<open><\<close>, so that nothing proved here depends on how
  subtraction rounds.
\<close>

subsection \<open>Python values\<close>

datatype py_error = KeyError string

text \<open>The result a worker leaves behind: \<open>None\<close> or a mapping from keys to values.\<close>

datatype py_result = RNone | RDict "(string \<times> string) list"

text \<open>Truth value of a result: \<open>None\<close> and the empty mapping are false.\<close>

fun result_truthy :: "py_result \<Rightarrow> bool" where
  "result_truthy RNone = False"
| "result_truthy (RDict kvs) = (kvs \<noteq> [])"

text \<open>\<open>key in result\<close>, evaluated only behind \<open>result_truthy\<close>.\<close>

fun result_has_key :: "string \<Rightarrow> py_result \<Rightarrow> bool" where
  "result_has_key k RNone = False"
| "result_has_key k (RDict kvs) = (k \<in> set (map fst kvs))"

text \<open>\<open>min(a, b)\<close> of Python: the first argument unless the second is strictly smaller.\<close>

definition py_min :: "('t::ord) \<Rightarrow> 't \<Rightarrow> 't" where
  "py_min a b = (if b < a then b else a)"

text \<open>\<open>os.path.join(a, b)\<close> on a POSIX host.\<close>

definition os_path_join :: "string \<Rightarrow> string \<Rightarrow> string" where
  "os_path_join a b =
     (if b \<noteq> [] \<and> hd b = CHR ''/'' then b
      else if a = [] \<or> last a = CHR ''/'' then a @ b
      else a @ ''/'' @ b)"

subsection \<open>Data model\<close>

text \<open>The compute task definition \<open>ctd\<close> handed to \<open>task_given\<close>.\<close>

record 't ctd =
  subtask_id :: string
  task_id :: string
  docker_images :: "string list"
  src_code :: string
  extra_data :: string
  short_description :: string
  deadline :: 't
  working_directory :: string
  return_address :: string
  return_port :: nat
  key_id :: string
  task_owner :: string

text \<open>An entry of \<open>task_server.task_keeper.task_headers\<close>.\<close>

record 't task_header =
  header_deadline :: 't
  subtask_timeout :: 't

text \<open>
  The two worker classes \<open>__compute_task\<close> chooses between; a \<open>DockerTaskThread\<close> is
  constructed with the docker images.
\<close>

datatype thread_class = DockerTaskThread "string list" | PyTaskThread

text \<open>
  A worker thread object: the constructor arguments of lines 342-348 and the attributes
  \<open>task_computed\<close> reads. \<open>thread_ident\<close> is the identity of the Python object, which
  \<open>list.remove\<close> compares (the thread classes define no \<open>__eq__\<close>).
\<close>

record 't task_thread =
  thread_ident :: nat
  thread_class :: thread_class
  tt_subtask_id :: string
  tt_working_directory :: string
  tt_src_code :: string
  tt_extra_data :: string
  tt_short_desc :: string
  res_path :: string
  tmp_path :: string
  timeout :: 't
  start_time :: 't
  end_time :: "'t option"
  error :: bool
  error_msg :: string
  result :: py_result

text \<open>\<open>CompStats\<close>, lines 24-29.\<close>

record comp_stats =
  computed_tasks :: int
  tasks_with_timeout :: int
  tasks_with_errors :: int
  tasks_requested :: int

text \<open>
  Modelled from the spec: \<open>IntStatsKeeper.increase_stat\<close> (golem.core.statskeeper is not among
  the sources). The Stats Counter is a monotonic tally of requested, computed, errored and
  timed-out subtasks; \<open>increase_stat\<close> adds one to the counter it names.
\<close>

definition increase_stat :: "string \<Rightarrow> comp_stats \<Rightarrow> comp_stats" where
  "increase_stat name st =
     (if name = ''computed_tasks'' then st\<lparr>computed_tasks := computed_tasks st + 1\<rparr>
      else if name = ''tasks_with_timeout'' then st\<lparr>tasks_with_timeout := tasks_with_timeout st + 1\<rparr>
      else if name = ''tasks_with_errors'' then st\<lparr>tasks_with_errors := tasks_with_errors st + 1\<rparr>
      else if name = ''tasks_requested'' then st\<lparr>tasks_requested := tasks_requested st + 1\<rparr>
      else st)"

text \<open>
  A handle returned by \<open>request_task\<close> or \<open>request_resource\<close> of the task server. The task
  server is outside the sources; a handle that is not \<open>None\<close> counts as true.
\<close>

datatype handle = Handle string

text \<open>
  \<open>counting_task\<close> is \<open>False\<close> after the constructor and after \<open>reset()\<close>, a task id after
  \<open>reset(computing_task=task_id)\<close>, and \<open>None\<close> after \<open>task_computed\<close>.
\<close>

datatype counting = CFalse | CNone | CTask string

fun counting_truthy :: "counting \<Rightarrow> bool" where
  "counting_truthy CFalse = False"
| "counting_truthy CNone = False"
| "counting_truthy (CTask t) = (t \<noteq> [])"

text \<open>The attributes of a \<open>TaskComputer\<close>, lines 46-83.\<close>

record 't task_computer =
  node_name :: string
  waiting_for_task :: "handle option"
  counting_task :: counting
  task_requested :: bool
  runnable :: bool
  listeners :: "nat list"
  current_computations :: "'t task_thread list"
  last_task_request :: 't
  waiting_ttl :: 't
  last_checking :: 't
  task_request_frequency :: 't
  use_waiting_ttl :: bool
  waiting_for_task_timeout :: 't
  waiting_for_task_session_timeout :: 't
  use_docker_machine_manager :: bool
  stats :: comp_stats
  assigned_subtasks :: "(string, 't ctd) fmap"
  task_to_subtask_mapping :: "(string, string) fmap"
  max_assigned_tasks :: nat
  delta :: "string option"
  last_task_timeout_checking :: "'t option"
  support_direct_computation :: bool
  compute_tasks :: bool

text \<open>An argument of a log call.\<close>

datatype 't log_arg = Str string | Num 't

text \<open>
  The calls a method makes on its collaborators. \<open>Send_task_failed\<close> and \<open>Send_results\<close>
  carry the arguments of the task server's methods in the source's order;
  \<open>Monitor_computation_time_spent success value\<close> is the \<open>dispatcher.send\<close> of the event
  \<open>computation_time_spent\<close>; \<open>Thread_start tt\<close> is the construction of the worker \<open>tt\<close>
  followed by \<open>tt.start()\<close>.
\<close>

datatype 't effect =
    Send_task_failed string string string string nat string string string
  | Send_results string string py_result 't string nat string string string
  | Monitor_computation_time_spent bool 't
  | Request_task
  | Request_resource string string string nat string string
  | Unpack_delta string "string option" string
  | Makedirs string
  | Thread_start "'t task_thread"
  | Check_timeout nat
  | End_comp nat
  | Listener_lock_config nat bool
  | Listener_config_changed nat
  | Docker_manager_install
  | Check_environment
  | Build_config
  | Update_config bool
  | Run_all_benchmarks
  | Logger_debug string "'t log_arg list"
  | Logger_info string "'t log_arg list"
  | Logger_error string "'t log_arg list"

text \<open>
  What a method reads from outside the class during one call: the clock, the task keeper's
  headers, the answers of the task server, the resource and directory managers, the file
  system and the docker manager. \<open>time_time\<close> is the reading of \<open>time.time()\<close> in the
  method itself, \<open>time_time_request\<close> the later reading inside \<open>__request_task\<close>.
  \<open>deadline_to_timeout\<close> (golem.core.common) is not among the sources and is taken as a
  parameter. \<open>new_thread_ident\<close> is the identity of the next object allocated.
\<close>

record 't env =
  time_time :: 't
  time_time_request :: 't
  task_headers :: "(string, 't task_header) fmap"
  request_task_answer :: "handle option"
  request_resource_answer :: "handle option"
  get_resource_header :: "string \<Rightarrow> string"
  get_task_resource_dir :: "string \<Rightarrow> string"
  get_resource_dir :: "string \<Rightarrow> string"
  get_temporary_dir :: "string \<Rightarrow> string"
  path_exists :: "string \<Rightarrow> bool"
  uuid4 :: string
  deadline_to_timeout :: "'t \<Rightarrow> 't"
  new_thread_ident :: nat
  docker_machine :: bool

text \<open>The fields of \<open>config_desc\<close> that \<open>change_config\<close> copies, lines 231-234.\<close>

record 't config_desc =
  task_request_interval :: 't
  cfg_waiting_for_task_timeout :: 't
  cfg_waiting_for_task_session_timeout :: 't
  accept_tasks :: bool

subsection \<open>Wait state: \<open>wait\<close>, \<open>reset\<close>, \<open>session_closed\<close> (lines 276-295)\<close>

definition wait :: "'t task_computer \<Rightarrow> bool \<Rightarrow> 't option \<Rightarrow> 't task_computer" where
  "wait s w ttl =
     (let s1 = s\<lparr>use_waiting_ttl := w\<rparr>
      in case ttl of
           None \<Rightarrow> s1\<lparr>waiting_ttl := waiting_for_task_session_timeout s1\<rparr>
         | Some t \<Rightarrow> s1\<lparr>waiting_ttl := t\<rparr>)"

definition reset :: "('t::zero) task_computer \<Rightarrow> counting \<Rightarrow> 't task_computer" where
  "reset s computing_task =
     s\<lparr>counting_task := computing_task,
       use_waiting_ttl := False,
       task_requested := False,
       waiting_for_task := None,
       waiting_ttl := 0\<rparr>"

definition session_closed :: "('t::zero) task_computer \<Rightarrow> 't task_computer" where
  "session_closed s = (if \<not> counting_truthy (counting_task s) then reset s CFalse else s)"

definition session_timeout :: "('t::zero) task_computer \<Rightarrow> 't task_computer" where
  "session_timeout s = session_closed s"

subsection \<open>Requests to the task server (lines 297-317)\<close>

definition request_task ::
  "'t env \<Rightarrow> 't task_computer \<Rightarrow> 't task_computer \<times> 't effect list" where
  "request_task env s =
     (let perform_request = (waiting_for_task s = None \<and> \<not> counting_truthy (counting_task s))
      in if \<not> perform_request then (s, [])
         else
           let now = time_time_request env;
               s1 = wait s True None;
               s2 = s1\<lparr>last_checking := now\<rparr>;
               s3 = s2\<lparr>last_task_request := now\<rparr>;
               s4 = s3\<lparr>waiting_for_task := request_task_answer env\<rparr>
           in if waiting_for_task s4 \<noteq> None
              then (s4\<lparr>stats := increase_stat ''tasks_requested'' (stats s4)\<rparr>, [Request_task])
              else (s4, [Request_task]))"

definition request_resource ::
  "'t env \<Rightarrow> 't task_computer \<Rightarrow> string \<Rightarrow> string \<Rightarrow> string \<Rightarrow> nat \<Rightarrow> string \<Rightarrow> string
     \<Rightarrow> 't task_computer \<times> 't effect list" where
  "request_resource env s task_id' resource_header return_address' return_port' key_id' task_owner' =
     (let s1 = s\<lparr>last_checking := time_time env\<rparr>;
          s2 = wait s1 True (Some (waiting_for_task_timeout s1))
      in (s2\<lparr>waiting_for_task := request_resource_answer env\<rparr>,
          [Request_resource task_id' resource_header return_address' return_port' key_id'
             task_owner']))"

subsection \<open>\<open>__compute_task\<close> (lines 319-363)\<close>

text \<open>
  The header lookup of line 323 is outside any \<open>try\<close>: a task id missing from
  \<open>task_headers\<close> raises \<open>KeyError\<close> before anything is changed. The result is \<open>Some\<close> of
  the exception, or \<open>None\<close> when the method returns.
\<close>

definition new_thread ::
  "'t env \<Rightarrow> thread_class \<Rightarrow> string \<Rightarrow> string \<Rightarrow> string \<Rightarrow> string \<Rightarrow> string \<Rightarrow> string
     \<Rightarrow> string \<Rightarrow> 't \<Rightarrow> 't task_thread" where
  \<comment> \<open>Modelled from the spec: the constructor of \<open>TaskThread\<close> (golem.task.taskthread is not
      among the sources). A worker is built from the subtask id, working directory, source
      code, extra data, short description, resource directory, temporary directory and
      timeout; it records its start time and has no end time, error or result yet.\<close>
  "new_thread env cls subtask_id' working_dir src_code' extra_data' short_desc resource_dir
       temp_dir task_timeout =
     \<lparr>thread_ident = new_thread_ident env, thread_class = cls, tt_subtask_id = subtask_id',
      tt_working_directory = working_dir, tt_src_code = src_code', tt_extra_data = extra_data',
      tt_short_desc = short_desc, res_path = resource_dir, tmp_path = temp_dir,
      timeout = task_timeout, start_time = time_time env, end_time = None, error = False,
      error_msg = [], result = RNone\<rparr>"

definition compute_task ::
  "('t::{zero,ord}) env \<Rightarrow> 't task_computer \<Rightarrow> string \<Rightarrow> string list \<Rightarrow> string \<Rightarrow> string
     \<Rightarrow> string \<Rightarrow> 't \<Rightarrow> py_error option \<times> 't task_computer \<times> 't effect list" where
  "compute_task env s subtask_id' docker_images' src_code' extra_data' short_desc subtask_deadline =
     (case fmlookup (assigned_subtasks s) subtask_id' of
        None \<Rightarrow> (Some (KeyError subtask_id'), s, [])
      | Some assigned \<Rightarrow>
          let task_id' = task_id assigned
          in case fmlookup (task_headers env) task_id' of
               None \<Rightarrow> (Some (KeyError task_id'), s, [])
             | Some task_header \<Rightarrow>
                 let deadline' = py_min (header_deadline task_header) subtask_deadline;
                     task_timeout = deadline_to_timeout env deadline';
                     working_dir = working_directory assigned;
                     unique_str = uuid4 env;
                     s1 = reset s (CTask task_id');
                     resource_dir = get_resource_dir env task_id';
                     temp_dir = os_path_join (get_temporary_dir env task_id') unique_str;
                     mk = (if \<not> path_exists env temp_dir then [Makedirs temp_dir] else [])
                 in if docker_images' \<noteq> [] then
                      let tt = new_thread env (DockerTaskThread docker_images') subtask_id'
                                 working_dir src_code' extra_data' short_desc resource_dir temp_dir
                                 task_timeout
                      in (None, s1\<lparr>current_computations := current_computations s1 @ [tt]\<rparr>,
                          mk @ [Thread_start tt])
                    else if support_direct_computation s1 then
                      let tt = new_thread env PyTaskThread subtask_id'
                                 working_dir src_code' extra_data' short_desc resource_dir temp_dir
                                 task_timeout
                      in (None, s1\<lparr>current_computations := current_computations s1 @ [tt]\<rparr>,
                          mk @ [Thread_start tt])
                    else
                      let subtask = assigned;
                          s2 = s1\<lparr>assigned_subtasks := fmdrop subtask_id' (assigned_subtasks s1)\<rparr>
                      in (None, s2\<lparr>counting_task := CNone\<rparr>,
                          mk @ [Logger_error ''Cannot run PyTaskThread in this version'' [],
                                Send_task_failed subtask_id' (task_id subtask)
                                  ''Host direct task not supported'' (return_address subtask)
                                  (return_port subtask) (key_id subtask) (task_owner subtask)
                                  (node_name s2)]))"

subsection \<open>Inbound callbacks (lines 85-148)\<close>

definition task_given ::
  "('t::zero) env \<Rightarrow> 't task_computer \<Rightarrow> 't ctd \<Rightarrow> bool \<times> 't task_computer \<times> 't effect list" where
  "task_given env s c =
     (if subtask_id c |\<notin>| fmdom (assigned_subtasks s) then
        let s1 = wait s True (Some (waiting_for_task_timeout s));
            s2 = s1\<lparr>assigned_subtasks := fmupd (subtask_id c) c (assigned_subtasks s1)\<rparr>;
            s3 = s2\<lparr>task_to_subtask_mapping :=
                      fmupd (task_id c) (subtask_id c) (task_to_subtask_mapping s2)\<rparr>;
            (s4, effs) = request_resource env s3 (task_id c) (get_resource_header env (task_id c))
                           (return_address c) (return_port c) (key_id c) (task_owner c)
        in (True, s4, effs)
      else (False, s, []))"

text \<open>
  \<open>resource_given\<close> and \<open>task_resource_collected\<close> return \<open>True\<close>, \<open>False\<close> or, when the task
  id is not a key of \<open>task_to_subtask_mapping\<close>, nothing (\<open>None\<close>); an exception of
  \<open>__compute_task\<close> passes through them.
\<close>

definition resource_given ::
  "('t::{zero,ord}) env \<Rightarrow> 't task_computer \<Rightarrow> string
     \<Rightarrow> (py_error + bool option) \<times> 't task_computer \<times> 't effect list" where
  "resource_given env s task_id' =
     (case fmlookup (task_to_subtask_mapping s) task_id' of
        None \<Rightarrow> (Inr None, s, [])
      | Some subtask_id' \<Rightarrow>
          (case fmlookup (assigned_subtasks s) subtask_id' of
             None \<Rightarrow> (Inr (Some False), s, [])
           | Some subtask \<Rightarrow>
               (case compute_task env s subtask_id' (docker_images subtask) (src_code subtask)
                       (extra_data subtask) (short_description subtask) (deadline subtask) of
                  (Some e, s1, effs) \<Rightarrow> (Inl e, s1, effs)
                | (None, s1, effs) \<Rightarrow> (Inr (Some True), s1\<lparr>waiting_for_task := None\<rparr>, effs))))"

definition task_resource_collected ::
  "('t::{zero,ord}) env \<Rightarrow> 't task_computer \<Rightarrow> string \<Rightarrow> bool
     \<Rightarrow> (py_error + bool option) \<times> 't task_computer \<times> 't effect list" where
  "task_resource_collected env s task_id' unpack_delta =
     (case fmlookup (task_to_subtask_mapping s) task_id' of
        None \<Rightarrow> (Inr None, s, [])
      | Some subtask_id' \<Rightarrow>
          (case fmlookup (assigned_subtasks s) subtask_id' of
             None \<Rightarrow> (Inr (Some False), s, [])
           | Some subtask \<Rightarrow>
               let unpack = (if unpack_delta
                             then [Unpack_delta (get_task_resource_dir env task_id') (delta s) task_id']
                             else []);
                   s1 = s\<lparr>delta := None\<rparr>;
                   s2 = s1\<lparr>last_task_timeout_checking := Some (time_time env)\<rparr>
               in (case compute_task env s2 subtask_id' (docker_images subtask) (src_code subtask)
                       (extra_data subtask) (short_description subtask) (deadline subtask) of
                     (Some e, s3, effs) \<Rightarrow> (Inl e, s3, unpack @ effs)
                   | (None, s3, effs) \<Rightarrow> (Inr (Some True), s3, unpack @ effs))))"

definition task_resource_failure ::
  "('t::zero) task_computer \<Rightarrow> string \<Rightarrow> string \<Rightarrow> 't task_computer \<times> 't effect list" where
  "task_resource_failure s task_id' reason =
     (case fmlookup (task_to_subtask_mapping s) task_id' of
        None \<Rightarrow> (s, [])
      | Some subtask_id' \<Rightarrow>
          let s1 = s\<lparr>task_to_subtask_mapping := fmdrop task_id' (task_to_subtask_mapping s)\<rparr>
          in (case fmlookup (assigned_subtasks s1) subtask_id' of
                None \<Rightarrow> (session_closed s1, [])
              | Some subtask \<Rightarrow>
                  let s2 = s1\<lparr>assigned_subtasks := fmdrop subtask_id' (assigned_subtasks s1)\<rparr>
                  in (session_closed s2,
                      [Send_task_failed subtask_id' (task_id subtask)
                         (''Error downloading resources: '' @ reason) (return_address subtask)
                         (return_port subtask) (key_id subtask) (task_owner subtask)
                         (node_name s2)])))"

definition wait_for_resources :: "'t task_computer \<Rightarrow> string \<Rightarrow> string \<Rightarrow> 't task_computer" where
  "wait_for_resources s task_id' delta' =
     (case fmlookup (task_to_subtask_mapping s) task_id' of
        None \<Rightarrow> s
      | Some subtask_id' \<Rightarrow>
          if subtask_id' |\<in>| fmdom (assigned_subtasks s) then s\<lparr>delta := Some delta'\<rparr> else s)"

definition task_request_rejected ::
  "'t task_computer \<Rightarrow> string \<Rightarrow> string \<Rightarrow> 't task_computer \<times> 't effect list" where
  "task_request_rejected s task_id' reason =
     (s, [Logger_info ''Task {} request rejected: {}'' [Str task_id', Str reason]])"

definition resource_request_rejected ::
  "('t::zero) task_computer \<Rightarrow> string \<Rightarrow> string \<Rightarrow> 't task_computer \<times> 't effect list" where
  "resource_request_rejected s subtask_id' reason =
     (let s1 = s\<lparr>assigned_subtasks := fmdrop subtask_id' (assigned_subtasks s)\<rparr>
      in (reset s1 CFalse,
          [Logger_info ''Task {} resource request rejected: {}'' [Str subtask_id', Str reason]]))"

subsection \<open>The outcome dispatcher \<open>task_computed\<close> (lines 150-201)\<close>

text \<open>
  \<open>current_computations.remove(task_thread)\<close> with the \<open>ValueError\<close> of an absent thread
  passed over.
\<close>

fun remove_thread :: "'t task_thread \<Rightarrow> 't task_thread list \<Rightarrow> 't task_thread list" where
  "remove_thread x [] = []"
| "remove_thread x (y # ys) =
     (if thread_ident y = thread_ident x then ys else y # remove_thread x ys)"

text \<open>
  The \<open>try\<close> of lines 162-173 covers both the \<open>pop\<close> of the subtask and the lookup of its
  task header: a \<open>KeyError\<close> from either ends the method at line 173, the second one after
  the subtask has been popped.
\<close>

definition task_computed ::
  "('t::minus) env \<Rightarrow> 't task_computer \<Rightarrow> 't task_thread \<Rightarrow> 't task_computer \<times> 't effect list" where
  "task_computed env s task_thread =
     (let tt = (if end_time task_thread = None
                then task_thread\<lparr>end_time := Some (time_time env)\<rparr> else task_thread);
          s1 = s\<lparr>current_computations := remove_thread tt (current_computations s)\<rparr>;
          work_wall_clock_time =
            (case end_time tt of None \<Rightarrow> time_time env | Some e \<Rightarrow> e) - start_time tt;
          subtask_id' = tt_subtask_id tt
      in case fmlookup (assigned_subtasks s1) subtask_id' of
           None \<Rightarrow> (s1, [Logger_error ''No subtask with id %r'' [Str subtask_id']])
         | Some subtask \<Rightarrow>
             let s2 = s1\<lparr>assigned_subtasks := fmdrop subtask_id' (assigned_subtasks s1)\<rparr>
             in case fmlookup (task_headers env) (task_id subtask) of
                  None \<Rightarrow> (s2, [Logger_error ''No subtask with id %r'' [Str subtask_id']])
                | Some task_header \<Rightarrow>
                    let work_time_to_be_paid = subtask_timeout task_header
                    in if error tt \<or> error_msg tt \<noteq> [] then
                         let s3 = (if sublist ''Task timed out'' (error_msg tt)
                                   then s2\<lparr>stats := increase_stat ''tasks_with_timeout'' (stats s2)\<rparr>
                                   else s2\<lparr>stats := increase_stat ''tasks_with_errors'' (stats s2)\<rparr>)
                         in (s3\<lparr>counting_task := CNone\<rparr>,
                             [Send_task_failed subtask_id' (task_id subtask) (error_msg tt)
                                (return_address subtask) (return_port subtask) (key_id subtask)
                                (task_owner subtask) (node_name s3),
                              Monitor_computation_time_spent False work_time_to_be_paid])
                       else if result_truthy (result tt) \<and> result_has_key ''data'' (result tt)
                                 \<and> result_has_key ''result_type'' (result tt) then
                         let s3 = s2\<lparr>stats := increase_stat ''computed_tasks'' (stats s2)\<rparr>
                         in (s3\<lparr>counting_task := CNone\<rparr>,
                             [Logger_info ''Task %r computed, work_wall_clock_time %s''
                                [Str subtask_id', Num work_wall_clock_time],
                              Send_results subtask_id' (task_id subtask) (result tt)
                                work_time_to_be_paid (return_address subtask) (return_port subtask)
                                (key_id subtask) (task_owner subtask) (node_name s3),
                              Monitor_computation_time_spent True work_time_to_be_paid])
                       else
                         let s3 = s2\<lparr>stats := increase_stat ''tasks_with_errors'' (stats s2)\<rparr>
                         in (s3\<lparr>counting_task := CNone\<rparr>,
                             [Send_task_failed subtask_id' (task_id subtask) ''Wrong result format''
                                (return_address subtask) (return_port subtask) (key_id subtask)
                                (task_owner subtask) (node_name s3),
                              Monitor_computation_time_spent False work_time_to_be_paid]))"

subsection \<open>The tick \<open>run\<close> (lines 203-217)\<close>

definition run ::
  "('t::{minus,zero,ord}) env \<Rightarrow> 't task_computer \<Rightarrow> 't task_computer \<times> 't effect list" where
  "run env s =
     (if counting_truthy (counting_task s) then
        (s, map (\<lambda>task_thread. Check_timeout (thread_ident task_thread)) (current_computations s))
      else if compute_tasks s \<and> runnable s then
        if waiting_for_task s = None then
          if time_time env - last_task_request s > task_request_frequency s then
            if length (current_computations s) = 0 then request_task env s else (s, [])
          else (s, [])
        else if use_waiting_ttl s then
          let time' = time_time env;
              s1 = s\<lparr>waiting_ttl := waiting_ttl s - (time' - last_checking s)\<rparr>;
              s2 = s1\<lparr>last_checking := time'\<rparr>
          in if waiting_ttl s2 < 0 then (reset s2 CFalse, []) else (s2, [])
        else (s, [])
      else (s, []))"

subsection \<open>Configuration (lines 228-274)\<close>

definition lock_config :: "'t task_computer \<Rightarrow> bool \<Rightarrow> 't effect list" where
  "lock_config s on = map (\<lambda>l. Listener_lock_config l on) (listeners s)"

definition config_changed :: "'t task_computer \<Rightarrow> 't effect list" where
  "config_changed s = map Listener_config_changed (listeners s)"

definition register_listener :: "'t task_computer \<Rightarrow> nat \<Rightarrow> 't task_computer" where
  "register_listener s listener = s\<lparr>listeners := listeners s @ [listener]\<rparr>"

text \<open>
  \<open>change_docker_config\<close> hands \<open>status_callback\<close> and \<open>done_callback\<close> to
  \<open>DockerManager.update_config\<close>, which is outside the sources. The call is recorded as
  \<open>Update_config in_background\<close>; \<open>status_callback\<close> reads \<open>counting_task\<close>, and
  \<open>done_callback\<close> is a method of its own here, run when the docker manager calls it.
\<close>

definition change_docker_config ::
  "'t env \<Rightarrow> 't task_computer \<Rightarrow> bool \<Rightarrow> bool \<Rightarrow> 't task_computer \<times> 't effect list" where
  "change_docker_config env s run_benchmarks in_background =
     (if \<not> docker_machine env \<and> run_benchmarks then (s, [Build_config, Run_all_benchmarks])
      else if docker_machine env \<and> use_docker_machine_manager s then
        (s\<lparr>runnable := False\<rparr>,
         [Build_config] @ lock_config s True @ [Update_config in_background])
      else (s, [Build_config]))"

definition status_callback :: "'t task_computer \<Rightarrow> counting" where
  "status_callback s = counting_task s"

definition done_callback :: "'t task_computer \<Rightarrow> bool \<Rightarrow> 't task_computer \<times> 't effect list" where
  "done_callback s run_benchmarks =
     (s\<lparr>runnable := True\<rparr>,
      (if run_benchmarks then [Run_all_benchmarks] else [])
        @ [Logger_debug ''Resuming new task computation'' []] @ lock_config s False)"

definition change_config ::
  "'t env \<Rightarrow> 't task_computer \<Rightarrow> 't config_desc \<Rightarrow> bool \<Rightarrow> bool
     \<Rightarrow> 't task_computer \<times> 't effect list" where
  "change_config env s config_desc in_background run_benchmarks =
     (let s1 = s\<lparr>task_request_frequency := task_request_interval config_desc\<rparr>;
          s2 = s1\<lparr>waiting_for_task_timeout := cfg_waiting_for_task_timeout config_desc\<rparr>;
          s3 = s2\<lparr>waiting_for_task_session_timeout :=
                    cfg_waiting_for_task_session_timeout config_desc\<rparr>;
          s4 = s3\<lparr>compute_tasks := accept_tasks config_desc\<rparr>
      in change_docker_config env s4 run_benchmarks in_background)"

definition quit :: "'t task_computer \<Rightarrow> 't effect list" where
  "quit s = map (\<lambda>t. End_comp (thread_ident t)) (current_computations s)"

subsection \<open>The constructor (lines 40-83)\<close>

text \<open>
  The attributes that are \<open>None\<close> until \<open>change_config\<close> sets them (line 72) start with the
  values \<open>change_config\<close> gives them; \<open>use_waiting_ttl\<close>, \<open>None\<close> until the first \<open>wait\<close> or
  \<open>reset\<close>, starts false.
\<close>

definition init ::
  "('t::zero) env \<Rightarrow> string \<Rightarrow> 't config_desc \<Rightarrow> bool \<Rightarrow> bool
     \<Rightarrow> 't task_computer \<times> 't effect list" where
  "init env node_name' config_desc use_docker_machine_manager' benchmarks_needed =
     (let s0 = \<lparr>node_name = node_name', waiting_for_task = None, counting_task = CFalse,
                task_requested = False, runnable = True, listeners = [],
                current_computations = [], last_task_request = time_time env, waiting_ttl = 0,
                last_checking = time_time env,
                task_request_frequency = task_request_interval config_desc,
                use_waiting_ttl = False,
                waiting_for_task_timeout = cfg_waiting_for_task_timeout config_desc,
                waiting_for_task_session_timeout =
                  cfg_waiting_for_task_session_timeout config_desc,
                use_docker_machine_manager = use_docker_machine_manager',
                stats = \<lparr>computed_tasks = 0, tasks_with_timeout = 0, tasks_with_errors = 0,
                          tasks_requested = 0\<rparr>,
                assigned_subtasks = fmempty, task_to_subtask_mapping = fmempty,
                max_assigned_tasks = 1, delta = None, last_task_timeout_checking = None,
                support_direct_computation = False, compute_tasks = accept_tasks config_desc\<rparr>;
          (s1, effs) = change_config env s0 config_desc False benchmarks_needed
      in (s1,
          [Docker_manager_install]
            @ (if use_docker_machine_manager' then [Check_environment] else []) @ effs))"

subsection \<open>Sequences of calls\<close>

text \<open>
  The public methods as events. \<open>step\<close> runs one of them and returns the state it leaves
  (also when it raises) and the calls it made; \<open>exec\<close> runs a sequence, each event with the
  environment it meets.
\<close>

datatype 't event =
    Task_given "'t ctd"
  | Resource_given string
  | Task_resource_collected string bool
  | Task_resource_failure string string
  | Wait_for_resources string string
  | Task_request_rejected string string
  | Resource_request_rejected string string
  | Task_computed "'t task_thread"
  | Run
  | Reset counting
  | Wait bool "'t option"
  | Session_timeout
  | Session_closed
  | Change_config "'t config_desc" bool bool
  | Done_callback bool
  | Register_listener nat
  | Quit

fun step ::
  "('t::{minus,zero,ord}) env \<Rightarrow> 't task_computer \<Rightarrow> 't event
     \<Rightarrow> 't task_computer \<times> 't effect list" where
  "step env s (Task_given c) = snd (task_given env s c)"
| "step env s (Resource_given t) = snd (resource_given env s t)"
| "step env s (Task_resource_collected t u) = snd (task_resource_collected env s t u)"
| "step env s (Task_resource_failure t r) = task_resource_failure s t r"
| "step env s (Wait_for_resources t d) = (wait_for_resources s t d, [])"
| "step env s (Task_request_rejected t r) = task_request_rejected s t r"
| "step env s (Resource_request_rejected sid r) = resource_request_rejected s sid r"
| "step env s (Task_computed tt) = task_computed env s tt"
| "step env s Run = run env s"
| "step env s (Reset c) = (reset s c, [])"
| "step env s (Wait w ttl) = (wait s w ttl, [])"
| "step env s Session_timeout = (session_timeout s, [])"
| "step env s Session_closed = (session_closed s, [])"
| "step env s (Change_config c b r) = change_config env s c b r"
| "step env s (Done_callback r) = done_callback s r"
| "step env s (Register_listener l) = (register_listener s l, [])"
| "step env s Quit = (s, quit s)"

fun exec ::
  "('t::{minus,zero,ord}) task_computer \<Rightarrow> ('t env \<times> 't event) list \<Rightarrow> 't task_computer" where
  "exec s [] = s"
| "exec s ((env, ev) # evs) = exec (fst (step env s ev)) evs"

fun trace ::
  "('t::{minus,zero,ord}) task_computer \<Rightarrow> ('t env \<times> 't event) list \<Rightarrow> 't task_computer list" where
  "trace s [] = []"
| "trace s ((env, ev) # evs) = fst (step env s ev) # trace (fst (step env s ev)) evs"

subsection \<open>Properties of states and of calls\<close>

text \<open>The outcome calls on the task server: \<open>send_results\<close> and \<open>send_task_failed\<close>.\<close>

fun is_outcome :: "'t effect \<Rightarrow> bool" where
  "is_outcome (Send_task_failed a b c d e f g h) = True"
| "is_outcome (Send_results a b c d e f g h i) = True"
| "is_outcome _ = False"

fun is_thread_start :: "'t effect \<Rightarrow> bool" where
  "is_thread_start (Thread_start tt) = True"
| "is_thread_start _ = False"

fun is_request_task :: "'t effect \<Rightarrow> bool" where
  "is_request_task Request_task = True"
| "is_request_task _ = False"

fun is_log :: "'t effect \<Rightarrow> bool" where
  "is_log (Logger_debug f a) = True"
| "is_log (Logger_info f a) = True"
| "is_log (Logger_error f a) = True"
| "is_log _ = False"

text \<open>
  Every assigned subtask is stored under its own subtask id, and
  \<open>task_to_subtask_mapping\<close> maps its task id to it.
\<close>

definition registry_inv :: "'t task_computer \<Rightarrow> bool" where
  "registry_inv s =
     fmpred (\<lambda>sid d. subtask_id d = sid
                \<and> fmlookup (task_to_subtask_mapping s) (task_id d) = Some sid)
       (assigned_subtasks s)"

text \<open>
  A \<open>task_given\<close> is admissible in a state when it is a repetition (its subtask id is
  assigned already) or no assigned subtask belongs to its task; every other call is
  admissible. A sequence is admissible when each call is, in the state it meets.
\<close>

fun admissible_event :: "'t task_computer \<Rightarrow> 't event \<Rightarrow> bool" where
  "admissible_event s (Task_given c) =
     (subtask_id c |\<in>| fmdom (assigned_subtasks s)
      \<or> fmpred (\<lambda>sid d. task_id d \<noteq> task_id c) (assigned_subtasks s))"
| "admissible_event s _ = True"

fun admissible ::
  "('t::{minus,zero,ord}) task_computer \<Rightarrow> ('t env \<times> 't event) list \<Rightarrow> bool" where
  "admissible s [] = True"
| "admissible s ((env, ev) # evs) =
     (admissible_event s ev \<and> admissible (fst (step env s ev)) evs)"

text \<open>The two callbacks that run the compute step.\<close>

fun is_compute_event :: "'t event \<Rightarrow> bool" where
  "is_compute_event (Resource_given t) = True"
| "is_compute_event (Task_resource_collected t u) = True"
| "is_compute_event _ = False"

subsection \<open>A concrete node\<close>

text \<open>
  The setting of the scenarios: task request interval 5, one task \<open>t1\<close> known to the task
  keeper with deadline 100 and subtask timeout 60, and a subtask \<open>s1\<close> of it with one docker
  image and deadline 70. Times are integers here.
\<close>

definition ex_config :: "int config_desc" where
  "ex_config = \<lparr>task_request_interval = 5, cfg_waiting_for_task_timeout = 30,
                cfg_waiting_for_task_session_timeout = 20, accept_tasks = True\<rparr>"

definition ex_header :: "int task_header" where
  "ex_header = \<lparr>header_deadline = 100, subtask_timeout = 60\<rparr>"

definition ex_env :: "int env" where
  "ex_env = \<lparr>time_time = 10, time_time_request = 10,
             task_headers = fmupd ''t1'' ex_header fmempty,
             request_task_answer = Some (Handle ''h1''),
             request_resource_answer = Some (Handle ''h2''),
             get_resource_header = (\<lambda>t. ''header''),
             get_task_resource_dir = (\<lambda>t. ''/res/'' @ t),
             get_resource_dir = (\<lambda>t. ''/res/'' @ t),
             get_temporary_dir = (\<lambda>t. ''/tmp/'' @ t),
             path_exists = (\<lambda>p. False), uuid4 = ''u1'',
             deadline_to_timeout = (\<lambda>d. d - 10), new_thread_ident = 1,
             docker_machine = False\<rparr>"

text \<open>The same environment with a task keeper that knows no task.\<close>

definition ex_env_no_header :: "int env" where
  "ex_env_no_header = ex_env\<lparr>task_headers := fmempty\<rparr>"

text \<open>The same environment with a docker machine present.\<close>

definition ex_env_docker_machine :: "int env" where
  "ex_env_docker_machine = ex_env\<lparr>docker_machine := True\<rparr>"

text \<open>The same environment 35 seconds later.\<close>

definition ex_env_later :: "int env" where
  "ex_env_later = ex_env\<lparr>time_time := 45\<rparr>"

definition ex_ctd :: "int ctd" where
  "ex_ctd = \<lparr>subtask_id = ''s1'', task_id = ''t1'', docker_images = [''img:1''],
             src_code = ''code'', extra_data = ''extra'', short_description = ''desc'',
             deadline = 70, working_directory = ''work'', return_address = ''10.0.0.1'',
             return_port = 40102, key_id = ''key'', task_owner = ''owner''\<rparr>"

text \<open>A second subtask of the same task, and \<open>s1\<close> without docker images.\<close>

definition ex_ctd2 :: "int ctd" where
  "ex_ctd2 = ex_ctd\<lparr>subtask_id := ''s2''\<rparr>"

definition ex_ctd_direct :: "int ctd" where
  "ex_ctd_direct = ex_ctd\<lparr>docker_images := []\<rparr>"

text \<open>The node after its constructor, and after \<open>task_given\<close> of \<open>s1\<close>.\<close>

definition ex_init :: "int task_computer" where
  "ex_init = fst (init ex_env ''node'' ex_config False False)"

definition ex_given :: "int task_computer" where
  "ex_given = fst (snd (task_given ex_env ex_init ex_ctd))"

text \<open>The node after \<open>task_resource_collected\<close> of \<open>t1\<close>: the worker of \<open>s1\<close> runs.\<close>

definition ex_computing :: "int task_computer" where
  "ex_computing = fst (snd (task_resource_collected ex_env ex_given ''t1'' True))"

text \<open>
  A worker of \<open>s1\<close> as it completes: started at 10, ended at 25, with the given error
  message and result.
\<close>

definition ex_thread :: "string \<Rightarrow> py_result \<Rightarrow> int task_thread" where
  "ex_thread msg res =
     (new_thread ex_env (DockerTaskThread [''img:1'']) ''s1'' ''work'' ''code'' ''extra'' ''desc''
        ''/res/t1'' ''/tmp/t1/u1'' 60)
       \<lparr>end_time := Some 25, error := (msg \<noteq> []), error_msg := msg, result := res\<rparr>"

text \<open>The node after the worker of \<open>s1\<close> has completed with a well-formed result.\<close>

definition ex_computed :: "int task_computer" where
  "ex_computed = fst (task_computed ex_env ex_computing
       (ex_thread [] (RDict [(''data'', ''r''), (''result_type'', ''bin'')])))"

text \<open>The node waiting for the resources of \<open>s1\<close>, after the operator has switched
  \<open>accept_tasks\<close> off.\<close>

definition ex_paused :: "int task_computer" where
  "ex_paused = fst (change_config ex_env ex_given (ex_config\<lparr>accept_tasks := False\<rparr>) True False)"

text \<open>The node after \<open>task_given\<close> of \<open>s1\<close> without docker images.\<close>

definition ex_given_direct :: "int task_computer" where
  "ex_given_direct = fst (snd (task_given ex_env ex_init ex_ctd_direct))"

text \<open>The subtask \<open>s1\<close> with a deadline after that of its task, and the node after
  \<open>task_given\<close> of it.\<close>

definition ex_ctd_late :: "int ctd" where
  "ex_ctd_late = ex_ctd\<lparr>deadline := 500\<rparr>"

definition ex_given_late :: "int task_computer" where
  "ex_given_late = fst (snd (task_given ex_env ex_init ex_ctd_late))"

text \<open>
  A node built with the docker machine manager in use, after \<open>task_given\<close> of \<open>s1\<close> and a
  \<open>change_config\<close> that finds a docker machine: the container reconfiguration is under way.
\<close>

definition ex_locked :: "int task_computer" where
  "ex_locked = exec (fst (init ex_env ''node'' ex_config True False))
     [(ex_env, Task_given ex_ctd),
      (ex_env_docker_machine, Change_config ex_config True False)]"

section \<open>The concrete node, evaluated\<close>

lemma ex_init_eq:
  "ex_init = \<lparr>node_name = ''node'', waiting_for_task = None, counting_task = CFalse,
     task_requested = False, runnable = True, listeners = [],
     current_computations = [], last_task_request = 10, waiting_ttl = 0,
     last_checking = 10, task_request_frequency = 5, use_waiting_ttl = False,
     waiting_for_task_timeout = 30, waiting_for_task_session_timeout = 20,
     use_docker_machine_manager = False,
     stats = \<lparr>computed_tasks = 0, tasks_with_timeout = 0, tasks_with_errors = 0,
               tasks_requested = 0\<rparr>,
     assigned_subtasks = fmempty, task_to_subtask_mapping = fmempty,
     max_assigned_tasks = 1, delta = None, last_task_timeout_checking = None,
     support_direct_computation = False, compute_tasks = True\<rparr>"
  by (simp add: ex_init_def init_def ex_env_def ex_config_def change_config_def
        change_docker_config_def)

lemma ex_given_eq:
  "ex_given = \<lparr>node_name = ''node'', waiting_for_task = Some (Handle ''h2''),
     counting_task = CFalse, task_requested = False, runnable = True,
     listeners = [], current_computations = [], last_task_request = 10,
     waiting_ttl = 30, last_checking = 10, task_request_frequency = 5,
     use_waiting_ttl = True, waiting_for_task_timeout = 30,
     waiting_for_task_session_timeout = 20,
     use_docker_machine_manager = False,
     stats = \<lparr>computed_tasks = 0, tasks_with_timeout = 0, tasks_with_errors = 0,
               tasks_requested = 0\<rparr>,
     assigned_subtasks = fmupd ''s1'' ex_ctd fmempty,
     task_to_subtask_mapping = fmupd ''t1'' ''s1'' fmempty,
     max_assigned_tasks = 1, delta = None, last_task_timeout_checking = None,
     support_direct_computation = False, compute_tasks = True\<rparr>"
  by (simp add: ex_given_def ex_init_eq task_given_def request_resource_def wait_def
        ex_ctd_def ex_env_def)

lemma ex_computing_eq:
  "ex_computing = \<lparr>node_name = ''node'', waiting_for_task = None,
     counting_task = CTask ''t1'', task_requested = False, runnable = True,
     listeners = [],
     current_computations =
       [\<lparr>thread_ident = 1, thread_class = DockerTaskThread [''img:1''],
           tt_subtask_id = ''s1'', tt_working_directory = ''work'',
           tt_src_code = ''code'', tt_extra_data = ''extra'',
           tt_short_desc = ''desc'', res_path = ''/res/t1'',
           tmp_path = ''/tmp/t1/u1'', timeout = 60, start_time = 10,
           end_time = None, error = False, error_msg = [], result = RNone\<rparr>],
     last_task_request = 10, waiting_ttl = 0, last_checking = 10,
     task_request_frequency = 5, use_waiting_ttl = False,
     waiting_for_task_timeout = 30, waiting_for_task_session_timeout = 20,
     use_docker_machine_manager = False,
     stats = \<lparr>computed_tasks = 0, tasks_with_timeout = 0, tasks_with_errors = 0,
          tasks_requested = 0\<rparr>,
     assigned_subtasks = fmupd ''s1'' ex_ctd fmempty,
     task_to_subtask_mapping = fmupd ''t1'' ''s1'' fmempty,
     max_assigned_tasks = 1, delta = None,
     last_task_timeout_checking = Some 10,
     support_direct_computation = False, compute_tasks = True\<rparr>"
  by (simp add: ex_computing_def ex_given_eq task_resource_collected_def compute_task_def
      ex_env_def ex_ctd_def ex_header_def py_min_def reset_def new_thread_def os_path_join_def Let_def)

lemma ex_computing_registry:
  "fmlookup (assigned_subtasks ex_computing) ''s1'' = Some ex_ctd"
  "fmlookup (task_headers ex_env) (task_id ex_ctd) = Some ex_header"
  "fmlookup (task_headers ex_env_no_header) (task_id ex_ctd) = None"
  "fmlookup (task_headers ex_env) ''t1'' = Some ex_header"
  "fmlookup (task_headers ex_env_no_header) ''t1'' = None"
  by (simp_all add: ex_computing_eq ex_env_def ex_ctd_def ex_env_no_header_def)

lemma ex_thread_subtask [simp]: "tt_subtask_id (ex_thread m r) = ''s1''"
  by (simp add: ex_thread_def new_thread_def)

lemma ex_computed_eq:
  "ex_computed = ex_computing\<lparr>current_computations := [], assigned_subtasks := fmempty,
      stats := \<lparr>computed_tasks = 1, tasks_with_timeout = 0, tasks_with_errors = 0,
                tasks_requested = 0\<rparr>,
      counting_task := CNone\<rparr>"
  by (simp add: ex_computed_def task_computed_def Let_def ex_computing_eq ex_thread_def
        new_thread_def ex_env_def ex_ctd_def ex_header_def increase_stat_def fmdrop_fmupd_same)

lemma ex_paused_eq: "ex_paused = ex_given\<lparr>compute_tasks := False\<rparr>"
  by (simp add: ex_paused_def change_config_def change_docker_config_def ex_env_def
        ex_config_def ex_given_eq)

lemma ex_given_direct_eq:
  "ex_given_direct = ex_given\<lparr>assigned_subtasks := fmupd ''s1'' ex_ctd_direct fmempty\<rparr>"
  by (simp add: ex_given_direct_def ex_init_eq ex_given_eq task_given_def request_resource_def
        wait_def ex_ctd_direct_def ex_ctd_def ex_env_def)

lemma ex_given_late_eq:
  "ex_given_late = ex_given\<lparr>assigned_subtasks := fmupd ''s1'' ex_ctd_late fmempty\<rparr>"
  by (simp add: ex_given_late_def ex_init_eq ex_given_eq task_given_def request_resource_def
        wait_def ex_ctd_late_def ex_ctd_def ex_env_def)

lemma ex_locked_eq:
  "ex_locked = ex_given\<lparr>use_docker_machine_manager := True, runnable := False\<rparr>"
  by (simp add: ex_locked_def init_def change_config_def change_docker_config_def
        task_given_def request_resource_def wait_def Let_def ex_given_eq ex_env_def
        ex_env_docker_machine_def ex_config_def ex_ctd_def)

section \<open>Resource failure\<close>

text \<open>
  Claim C6. \<open>task_resource_failure(t, r)\<close> is idempotent: called with a task id that is not a
  key of \<open>task_to_subtask_mapping\<close> it changes nothing and calls nothing (no
  \<open>send_task_failed\<close>, no \<open>reset\<close>), and a second call with the same task id right after a
  first one is such a call, whatever the first one did.
\<close>

theorem task_resource_failure_idempotent:
  "(task_id' |\<notin>| fmdom (task_to_subtask_mapping s)
      \<longrightarrow> task_resource_failure s task_id' reason = (s, []))
   \<and> task_resource_failure (fst (task_resource_failure s task_id' reason)) task_id' reason'
       = (fst (task_resource_failure s task_id' reason), [])"
proof -
  have unknown: "task_resource_failure s' t r = (s', [])"
    if "fmlookup (task_to_subtask_mapping s') t = None" for s' :: "'a task_computer" and t r
    using that by (simp add: task_resource_failure_def)
  have gone:
    "fmlookup (task_to_subtask_mapping (fst (task_resource_failure s task_id' reason))) task_id'
       = None"
    by (auto simp: task_resource_failure_def session_closed_def reset_def Let_def
          split: option.splits)
  show ?thesis
    using unknown [of s task_id' reason] unknown [OF gone, of reason']
    by (auto simp: fmdom_notD)
qed

theorem task_resource_failure_idempotent_witness:
  "''t9'' |\<notin>| fmdom (task_to_subtask_mapping ex_given)
   \<and> task_resource_failure ex_given ''t9'' ''lost'' = (ex_given, [])
   \<and> task_resource_failure (fst (task_resource_failure ex_given ''t1'' ''lost'')) ''t1'' ''lost''
       = (fst (task_resource_failure ex_given ''t1'' ''lost''), [])"
  using task_resource_failure_idempotent [of "''t9''" ex_given "''lost''" "''lost''"]
        task_resource_failure_idempotent [of "''t1''" ex_given "''lost''" "''lost''"]
  by (simp add: ex_given_eq)

section \<open>The outcome dispatcher\<close>

text \<open>
  What \<open>task_computed\<close> does in each of its three situations: the subtask is not
  registered; it is registered and its task has no header; it is registered and its task
  has a header.
\<close>

lemma task_computed_unregistered:
  assumes "fmlookup (assigned_subtasks s) (tt_subtask_id tt) = None"
  shows "snd (task_computed env s tt) =
           [Logger_error ''No subtask with id %r'' [Str (tt_subtask_id tt)]]"
  using assms by (simp add: task_computed_def Let_def)

lemma task_computed_header_missing:
  assumes "fmlookup (assigned_subtasks s) (tt_subtask_id tt) = Some d"
      and "fmlookup (task_headers env) (task_id d) = None"
  shows "task_computed env s tt =
           (s\<lparr>current_computations := remove_thread tt (current_computations s),
              assigned_subtasks := fmdrop (tt_subtask_id tt) (assigned_subtasks s)\<rparr>,
            [Logger_error ''No subtask with id %r'' [Str (tt_subtask_id tt)]])"
proof -
  have same: "remove_thread (tt\<lparr>end_time := e\<rparr>) xs = remove_thread tt xs" for e xs
    by (induction xs) simp_all
  show ?thesis using assms by (simp add: task_computed_def Let_def same)
qed

lemma task_computed_registered:
  assumes "fmlookup (assigned_subtasks s) (tt_subtask_id tt) = Some d"
      and "fmlookup (task_headers env) (task_id d) = Some h"
  shows "filter (\<lambda>e. \<not> is_log e) (snd (task_computed env s tt)) =
           [if error tt \<or> error_msg tt \<noteq> []
            then Send_task_failed (tt_subtask_id tt) (task_id d) (error_msg tt) (return_address d)
                   (return_port d) (key_id d) (task_owner d) (node_name s)
            else if result_truthy (result tt) \<and> result_has_key ''data'' (result tt)
                      \<and> result_has_key ''result_type'' (result tt)
            then Send_results (tt_subtask_id tt) (task_id d) (result tt) (subtask_timeout h)
                   (return_address d) (return_port d) (key_id d) (task_owner d) (node_name s)
            else Send_task_failed (tt_subtask_id tt) (task_id d) ''Wrong result format''
                   (return_address d) (return_port d) (key_id d) (task_owner d) (node_name s),
            Monitor_computation_time_spent
              (\<not> (error tt \<or> error_msg tt \<noteq> []) \<and> result_truthy (result tt)
                 \<and> result_has_key ''data'' (result tt) \<and> result_has_key ''result_type'' (result tt))
              (subtask_timeout h)]"
    and "stats (fst (task_computed env s tt)) =
           increase_stat
             (if error tt \<or> error_msg tt \<noteq> []
              then if sublist ''Task timed out'' (error_msg tt)
                   then ''tasks_with_timeout'' else ''tasks_with_errors''
              else if result_truthy (result tt) \<and> result_has_key ''data'' (result tt)
                        \<and> result_has_key ''result_type'' (result tt)
              then ''computed_tasks'' else ''tasks_with_errors'')
             (stats s)"
  using assms by (simp_all add: task_computed_def Let_def)

lemma task_computed_one_outcome:
  assumes "fmlookup (assigned_subtasks s) (tt_subtask_id tt) = Some d"
      and "fmlookup (task_headers env) (task_id d) = Some h"
  shows "length (filter is_outcome (snd (task_computed env s tt))) = 1"
  using assms by (simp add: task_computed_def Let_def)

lemma not_log_member:
  "\<not> is_log e \<Longrightarrow> e \<in> set effs \<Longrightarrow> e \<in> set (filter (\<lambda>e. \<not> is_log e) effs)"
  by simp

text \<open>
  Claim C2 asks for exactly one outcome call (\<open>send_results\<close> or \<open>send_task_failed\<close>) for
  every subtask that is registered when its worker completes, whether or not \<open>task_headers\<close>
  contains its task id. With a header there is exactly one (\<open>task_computed_one_outcome\<close>).
  Without one the source does otherwise: for the registered subtask \<open>s1\<close> of the task \<open>t1\<close>,
  with a well-formed result and a task keeper that holds no header of \<open>t1\<close>,
  \<open>task_computed\<close> makes no outcome call at all, although it has popped \<open>s1\<close> from
  \<open>assigned_subtasks\<close>, and it leaves \<open>counting_task\<close> set.
\<close>

theorem task_computed_without_header_no_outcome:
  "fmlookup (assigned_subtasks ex_computing) ''s1'' = Some ex_ctd
   \<and> fmlookup (task_headers ex_env_no_header) (task_id ex_ctd) = None
   \<and> filter is_outcome (snd (task_computed ex_env_no_header ex_computing
         (ex_thread [] (RDict [(''data'', ''r''), (''result_type'', ''bin'')])))) = []
   \<and> fmlookup (assigned_subtasks (fst (task_computed ex_env_no_header ex_computing
         (ex_thread [] (RDict [(''data'', ''r''), (''result_type'', ''bin'')]))))) ''s1'' = None
   \<and> counting_task (fst (task_computed ex_env_no_header ex_computing
         (ex_thread [] (RDict [(''data'', ''r''), (''result_type'', ''bin'')])))) = CTask ''t1''"
proof -
  have reg: "fmlookup (assigned_subtasks ex_computing) (tt_subtask_id (ex_thread m r)) = Some ex_ctd"
    for m r by (simp add: ex_computing_registry)
  show ?thesis
    by (simp add: task_computed_header_missing [OF reg ex_computing_registry(3)]
          ex_computing_registry)
       (simp add: ex_computing_eq)
qed

text \<open>
  Claim C3 asks, for every completed worker whose subtask is registered, that an error whose
  message contains \<open>Task timed out\<close> increments \<open>tasks_with_timeout\<close> and is reported with
  \<open>send_task_failed\<close>, and likewise for the other three outcomes. With a header in
  \<open>task_headers\<close> the source does so (\<open>task_computed_classifies\<close> below). Without one it
  does not, by the same early return of line 173: the worker of the registered subtask \<open>s1\<close>
  reports \<open>Task timed out after 60s\<close>, the task keeper holds no header of \<open>t1\<close>, and
  \<open>tasks_with_timeout\<close> is not incremented and \<open>send_task_failed\<close> is not called.
\<close>

theorem task_computed_timeout_unreported:
  "fmlookup (assigned_subtasks ex_computing) ''s1'' = Some ex_ctd
   \<and> sublist ''Task timed out'' (error_msg (ex_thread ''Task timed out after 60s'' RNone))
   \<and> tasks_with_timeout (stats (fst (task_computed ex_env_no_header ex_computing
         (ex_thread ''Task timed out after 60s'' RNone))))
       = tasks_with_timeout (stats ex_computing)
   \<and> filter is_outcome (snd (task_computed ex_env_no_header ex_computing
         (ex_thread ''Task timed out after 60s'' RNone))) = []"
proof -
  have reg: "fmlookup (assigned_subtasks ex_computing) (tt_subtask_id (ex_thread m r)) = Some ex_ctd"
    for m r by (simp add: ex_computing_registry)
  show ?thesis
    by (simp add: task_computed_header_missing [OF reg ex_computing_registry(3)]
          ex_computing_registry)
       (simp add: ex_thread_def sublist_code)
qed

text \<open>
  The classification of lines 175-200, reached when the subtask is registered and its task
  has a header in \<open>task_headers\<close>: if the worker reports an error whose message contains
  \<open>Task timed out\<close>, then \<open>tasks_with_timeout\<close> is incremented and \<open>send_task_failed\<close> is
  called with the worker's message, with monitor \<open>success = False\<close>; if it reports any other
  error, then \<open>tasks_with_errors\<close> is incremented and \<open>send_task_failed\<close> is called with
  the worker's message, with monitor \<open>success = False\<close>; if it reports no error and the
  result is a mapping with the keys \<open>data\<close> and \<open>result_type\<close>, then \<open>computed_tasks\<close> is
  incremented and \<open>send_results\<close> is called, with monitor \<open>success = True\<close>; otherwise
  \<open>tasks_with_errors\<close> is incremented and \<open>send_task_failed\<close> is called with the reason
  \<open>Wrong result format\<close>, with monitor \<open>success = False\<close>. Apart from log lines these two
  calls are all the calls made.
\<close>

theorem task_computed_classifies:
  assumes "fmlookup (assigned_subtasks s) (tt_subtask_id tt) = Some d"
      and "fmlookup (task_headers env) (task_id d) = Some h"
  shows "(sublist ''Task timed out'' (error_msg tt) \<longrightarrow>
            tasks_with_timeout (stats (fst (task_computed env s tt)))
              = tasks_with_timeout (stats s) + 1
            \<and> filter (\<lambda>e. \<not> is_log e) (snd (task_computed env s tt)) =
                [Send_task_failed (tt_subtask_id tt) (task_id d) (error_msg tt)
                   (return_address d) (return_port d) (key_id d) (task_owner d) (node_name s),
                 Monitor_computation_time_spent False (subtask_timeout h)])
       \<and> ((error tt \<or> error_msg tt \<noteq> []) \<and> \<not> sublist ''Task timed out'' (error_msg tt) \<longrightarrow>
            tasks_with_errors (stats (fst (task_computed env s tt)))
              = tasks_with_errors (stats s) + 1
            \<and> filter (\<lambda>e. \<not> is_log e) (snd (task_computed env s tt)) =
                [Send_task_failed (tt_subtask_id tt) (task_id d) (error_msg tt)
                   (return_address d) (return_port d) (key_id d) (task_owner d) (node_name s),
                 Monitor_computation_time_spent False (subtask_timeout h)])
       \<and> (\<not> error tt \<and> error_msg tt = [] \<and> result_has_key ''data'' (result tt)
              \<and> result_has_key ''result_type'' (result tt) \<longrightarrow>
            computed_tasks (stats (fst (task_computed env s tt)))
              = computed_tasks (stats s) + 1
            \<and> filter (\<lambda>e. \<not> is_log e) (snd (task_computed env s tt)) =
                [Send_results (tt_subtask_id tt) (task_id d) (result tt) (subtask_timeout h)
                   (return_address d) (return_port d) (key_id d) (task_owner d) (node_name s),
                 Monitor_computation_time_spent True (subtask_timeout h)])
       \<and> (\<not> error tt \<and> error_msg tt = [] \<and> \<not> (result_has_key ''data'' (result tt)
              \<and> result_has_key ''result_type'' (result tt)) \<longrightarrow>
            tasks_with_errors (stats (fst (task_computed env s tt)))
              = tasks_with_errors (stats s) + 1
            \<and> filter (\<lambda>e. \<not> is_log e) (snd (task_computed env s tt)) =
                [Send_task_failed (tt_subtask_id tt) (task_id d) ''Wrong result format''
                   (return_address d) (return_port d) (key_id d) (task_owner d) (node_name s),
                 Monitor_computation_time_spent False (subtask_timeout h)])"
proof -
  have nonempty: "sublist ''Task timed out'' m \<Longrightarrow> m \<noteq> []" for m :: string
    by auto
  have keyed: "result_has_key k r \<Longrightarrow> result_truthy r" for k r
    by (cases r) auto
  show ?thesis
    using task_computed_registered [OF assms] nonempty [of "error_msg tt"]
      keyed [of "''data''" "result tt"]
    by (auto simp: increase_stat_def)
qed

theorem task_computed_classifies_witness:
  "fmlookup (assigned_subtasks ex_computing) (tt_subtask_id (ex_thread ''Task timed out after 60s'' RNone)) = Some ex_ctd
   \<and> fmlookup (task_headers ex_env) (task_id ex_ctd) = Some ex_header
   \<and> sublist ''Task timed out'' (error_msg (ex_thread ''Task timed out after 60s'' RNone))
   \<and> tasks_with_timeout (stats (fst (task_computed ex_env ex_computing
          (ex_thread ''Task timed out after 60s'' RNone)))) = 1
   \<and> filter (\<lambda>e. \<not> is_log e) (snd (task_computed ex_env ex_computing
          (ex_thread ''Task timed out after 60s'' RNone))) =
        [Send_task_failed ''s1'' ''t1'' ''Task timed out after 60s'' ''10.0.0.1'' 40102 ''key''
           ''owner'' ''node'',
         Monitor_computation_time_spent False 60]
   \<and> \<not> sublist ''Task timed out'' (error_msg (ex_thread ''boom'' RNone))
   \<and> tasks_with_errors (stats (fst (task_computed ex_env ex_computing
          (ex_thread ''boom'' RNone)))) = 1
   \<and> filter (\<lambda>e. \<not> is_log e) (snd (task_computed ex_env ex_computing
          (ex_thread ''boom'' RNone))) =
        [Send_task_failed ''s1'' ''t1'' ''boom'' ''10.0.0.1'' 40102 ''key'' ''owner'' ''node'',
         Monitor_computation_time_spent False 60]
   \<and> computed_tasks (stats (fst (task_computed ex_env ex_computing
          (ex_thread [] (RDict [(''data'', ''r''), (''result_type'', ''bin'')]))))) = 1
   \<and> filter (\<lambda>e. \<not> is_log e) (snd (task_computed ex_env ex_computing
          (ex_thread [] (RDict [(''data'', ''r''), (''result_type'', ''bin'')])))) =
        [Send_results ''s1'' ''t1'' (RDict [(''data'', ''r''), (''result_type'', ''bin'')]) 60
           ''10.0.0.1'' 40102 ''key'' ''owner'' ''node'',
         Monitor_computation_time_spent True 60]
   \<and> tasks_with_errors (stats (fst (task_computed ex_env ex_computing
          (ex_thread [] (RDict [(''data'', ''r'')]))))) = 1
   \<and> filter (\<lambda>e. \<not> is_log e) (snd (task_computed ex_env ex_computing
          (ex_thread [] (RDict [(''data'', ''r'')])))) =
        [Send_task_failed ''s1'' ''t1'' ''Wrong result format'' ''10.0.0.1'' 40102 ''key''
           ''owner'' ''node'',
         Monitor_computation_time_spent False 60]"
proof -
  have reg: "fmlookup (assigned_subtasks ex_computing) (tt_subtask_id (ex_thread m r)) = Some ex_ctd"
    for m r by (simp add: ex_computing_registry)
  note hdr = ex_computing_registry(2)
  have vals: "task_id ex_ctd = ''t1''" "return_address ex_ctd = ''10.0.0.1''"
    "return_port ex_ctd = 40102" "key_id ex_ctd = ''key''" "task_owner ex_ctd = ''owner''"
    "node_name ex_computing = ''node''" "subtask_timeout ex_header = 60"
    "tasks_with_timeout (stats ex_computing) = 0" "tasks_with_errors (stats ex_computing) = 0"
    "computed_tasks (stats ex_computing) = 0"
    by (simp_all add: ex_ctd_def ex_computing_eq ex_header_def)
  have thr: "error_msg (ex_thread m r) = m" "error (ex_thread m r) = (m \<noteq> [])"
    "result (ex_thread m r) = r" for m r
    by (simp_all add: ex_thread_def)
  show ?thesis
    using task_computed_classifies [OF reg hdr, of "''Task timed out after 60s''" RNone]
      task_computed_classifies [OF reg hdr, of "''boom''" RNone]
      task_computed_classifies [OF reg hdr, of "[]" "RDict [(''data'', ''r''), (''result_type'', ''bin'')]"]
      task_computed_classifies [OF reg hdr, of "[]" "RDict [(''data'', ''r'')]"]
    by (simp add: ex_computing_registry vals thr sublist_code)
qed

text \<open>
  Claim C4. Whenever \<open>task_computed\<close> calls \<open>send_results\<close>, the paid time it passes is the
  \<open>subtask_timeout\<close> of the header of the subtask's task, and so is the value of every
  \<open>computation_time_spent\<close> monitor event it sends; the worker's start and end times have no
  influence on any call but the log line.
\<close>

theorem task_computed_pays_subtask_timeout:
  "(\<forall>sid tid res paid addr port key owner node.
      Send_results sid tid res paid addr port key owner node \<in> set (snd (task_computed env s tt)) \<longrightarrow>
        (\<exists>d h. fmlookup (assigned_subtasks s) (tt_subtask_id tt) = Some d
           \<and> fmlookup (task_headers env) (task_id d) = Some h \<and> paid = subtask_timeout h))
   \<and> (\<forall>success v.
      Monitor_computation_time_spent success v \<in> set (snd (task_computed env s tt)) \<longrightarrow>
        (\<exists>d h. fmlookup (assigned_subtasks s) (tt_subtask_id tt) = Some d
           \<and> fmlookup (task_headers env) (task_id d) = Some h \<and> v = subtask_timeout h))
   \<and> filter (\<lambda>e. \<not> is_log e)
        (snd (task_computed env s (tt\<lparr>start_time := started, end_time := ended\<rparr>)))
       = filter (\<lambda>e. \<not> is_log e) (snd (task_computed env s tt))"
proof (cases "fmlookup (assigned_subtasks s) (tt_subtask_id tt)")
  case None
  then have "snd (task_computed env s tt) =
               [Logger_error ''No subtask with id %r'' [Str (tt_subtask_id tt)]]"
    and "snd (task_computed env s (tt\<lparr>start_time := started, end_time := ended\<rparr>)) =
               [Logger_error ''No subtask with id %r'' [Str (tt_subtask_id tt)]]"
    using task_computed_unregistered [of s tt env]
      task_computed_unregistered [of s "tt\<lparr>start_time := started, end_time := ended\<rparr>" env]
    by simp_all
  then show ?thesis by simp
next
  case (Some d)
  note reg = this
  have reg': "fmlookup (assigned_subtasks s)
                (tt_subtask_id (tt\<lparr>start_time := started, end_time := ended\<rparr>)) = Some d"
    using reg by simp
  show ?thesis
  proof (cases "fmlookup (task_headers env) (task_id d)")
    case None
    show ?thesis
      by (simp add: task_computed_header_missing [OF reg None]
            task_computed_header_missing [OF reg' None])
  next
    case (Some h)
    note effs = task_computed_registered(1) [OF reg Some]
    note effs' = task_computed_registered(1) [OF reg' Some]
    have paid: "paid = subtask_timeout h"
      if "Send_results sid tid res paid addr port key owner node
            \<in> set (snd (task_computed env s tt))"
      for sid tid res paid addr port key owner node
      using not_log_member [OF _ that] unfolding effs by (simp split: if_splits)
    have worth: "v = subtask_timeout h"
      if "Monitor_computation_time_spent success v \<in> set (snd (task_computed env s tt))"
      for success v
      using not_log_member [OF _ that] unfolding effs by (simp split: if_splits)
    have clock: "filter (\<lambda>e. \<not> is_log e)
        (snd (task_computed env s (tt\<lparr>start_time := started, end_time := ended\<rparr>)))
       = filter (\<lambda>e. \<not> is_log e) (snd (task_computed env s tt))"
      unfolding effs effs' by simp
    from paid worth clock reg Some show ?thesis by blast
  qed
qed

theorem task_computed_pays_subtask_timeout_witness:
  "Send_results ''s1'' ''t1'' (RDict [(''data'', ''r''), (''result_type'', ''bin'')]) 60
      ''10.0.0.1'' 40102 ''key'' ''owner'' ''node''
     \<in> set (snd (task_computed ex_env ex_computing
          (ex_thread [] (RDict [(''data'', ''r''), (''result_type'', ''bin'')]))))
   \<and> Monitor_computation_time_spent True 60
     \<in> set (snd (task_computed ex_env ex_computing
          (ex_thread [] (RDict [(''data'', ''r''), (''result_type'', ''bin'')]))))
   \<and> (\<exists>d h. fmlookup (assigned_subtasks ex_computing)
               (tt_subtask_id (ex_thread [] (RDict [(''data'', ''r''), (''result_type'', ''bin'')])))
             = Some d
          \<and> fmlookup (task_headers ex_env) (task_id d) = Some h \<and> 60 = subtask_timeout h)"
proof -
  have sent: "Send_results ''s1'' ''t1'' (RDict [(''data'', ''r''), (''result_type'', ''bin'')]) 60
      ''10.0.0.1'' 40102 ''key'' ''owner'' ''node''
     \<in> set (snd (task_computed ex_env ex_computing
          (ex_thread [] (RDict [(''data'', ''r''), (''result_type'', ''bin'')]))))"
    and monitored: "Monitor_computation_time_spent True 60
     \<in> set (snd (task_computed ex_env ex_computing
          (ex_thread [] (RDict [(''data'', ''r''), (''result_type'', ''bin'')]))))"
    by (simp_all add: task_computed_def Let_def ex_computing_eq ex_thread_def new_thread_def
          ex_env_def ex_ctd_def ex_header_def)
  from sent monitored
    task_computed_pays_subtask_timeout [where env = ex_env and s = ex_computing
      and tt = "ex_thread [] (RDict [(''data'', ''r''), (''result_type'', ''bin'')])"]
  show ?thesis by blast
qed

section \<open>Accepting a subtask\<close>

text \<open>
  Claim C5 as stated fails for \<open>task_to_subtask_mapping\<close>: after the worker of \<open>s1\<close> has
  completed, the entry of its task \<open>t1\<close> is still in the mapping, and \<open>task_given\<close> of a
  second subtask \<open>s2\<close> of \<open>t1\<close> returns \<open>True\<close> while the mapping keeps its size.
\<close>

theorem task_given_mapping_not_grown:
  "subtask_id ex_ctd2 |\<notin>| fmdom (assigned_subtasks ex_computed)
   \<and> fst (task_given ex_env ex_computed ex_ctd2)
   \<and> fcard (fmdom (task_to_subtask_mapping (fst (snd (task_given ex_env ex_computed ex_ctd2)))))
       = fcard (fmdom (task_to_subtask_mapping ex_computed))"
  by (simp add: task_given_def request_resource_def wait_def Let_def ex_computed_eq
        ex_computing_eq ex_ctd2_def ex_ctd_def)

text \<open>
  Claim C5, amended. \<open>task_given(d)\<close> with a subtask id that is not in \<open>assigned_subtasks\<close>
  returns \<open>True\<close>, adds exactly one entry to \<open>assigned_subtasks\<close> and binds the task id to
  the subtask id in \<open>task_to_subtask_mapping\<close>, which adds an entry there exactly when the
  task id was not a key yet; \<open>task_given\<close> called again with the same subtask id returns
  \<open>False\<close>, changes nothing and calls nothing, so that after the two calls
  \<open>assigned_subtasks\<close> has grown by exactly one.
\<close>

theorem task_given_twice:
  assumes "subtask_id c |\<notin>| fmdom (assigned_subtasks s)"
      and "subtask_id c' = subtask_id c"
  shows "fst (task_given env s c)
     \<and> assigned_subtasks (fst (snd (task_given env s c)))
         = fmupd (subtask_id c) c (assigned_subtasks s)
     \<and> fcard (fmdom (assigned_subtasks (fst (snd (task_given env s c)))))
         = fcard (fmdom (assigned_subtasks s)) + 1
     \<and> task_to_subtask_mapping (fst (snd (task_given env s c)))
         = fmupd (task_id c) (subtask_id c) (task_to_subtask_mapping s)
     \<and> fcard (fmdom (task_to_subtask_mapping (fst (snd (task_given env s c)))))
         = (if task_id c |\<in>| fmdom (task_to_subtask_mapping s)
            then fcard (fmdom (task_to_subtask_mapping s))
            else fcard (fmdom (task_to_subtask_mapping s)) + 1)
     \<and> task_given env' (fst (snd (task_given env s c))) c'
         = (False, fst (snd (task_given env s c)), [])
     \<and> fcard (fmdom (assigned_subtasks
           (fst (snd (task_given env' (fst (snd (task_given env s c))) c')))))
         = fcard (fmdom (assigned_subtasks s)) + 1"
proof -
  let ?s1 = "fst (snd (task_given env s c))"
  have first: "fst (task_given env s c)"
    and assigned: "assigned_subtasks ?s1 = fmupd (subtask_id c) c (assigned_subtasks s)"
    and mapping: "task_to_subtask_mapping ?s1
                    = fmupd (task_id c) (subtask_id c) (task_to_subtask_mapping s)"
    using assms(1)
    by (simp_all add: task_given_def request_resource_def wait_def Let_def)
  have size_assigned: "fcard (fmdom (assigned_subtasks ?s1)) = fcard (fmdom (assigned_subtasks s)) + 1"
    using assms(1) by (simp add: assigned fcard_finsert_disjoint)
  have size_mapping: "fcard (fmdom (task_to_subtask_mapping ?s1))
         = (if task_id c |\<in>| fmdom (task_to_subtask_mapping s)
            then fcard (fmdom (task_to_subtask_mapping s))
            else fcard (fmdom (task_to_subtask_mapping s)) + 1)"
    by (simp add: mapping fcard_finsert_disjoint finsert_absorb)
  have second: "task_given env' ?s1 c' = (False, ?s1, [])"
    using assms(2) by (simp add: task_given_def [of env' ?s1 c'] assigned)
  show ?thesis
    using first assigned mapping size_assigned size_mapping second by simp
qed

theorem task_given_twice_witness:
  "subtask_id ex_ctd |\<notin>| fmdom (assigned_subtasks ex_init)
   \<and> fst (task_given ex_env ex_init ex_ctd)
   \<and> fcard (fmdom (assigned_subtasks (fst (snd (task_given ex_env ex_init ex_ctd))))) = 1
   \<and> fcard (fmdom (task_to_subtask_mapping (fst (snd (task_given ex_env ex_init ex_ctd))))) = 1
   \<and> task_given ex_env_later (fst (snd (task_given ex_env ex_init ex_ctd))) ex_ctd
       = (False, fst (snd (task_given ex_env ex_init ex_ctd)), [])"
proof -
  have fresh: "subtask_id ex_ctd |\<notin>| fmdom (assigned_subtasks ex_init)"
    by (simp add: ex_init_eq)
  have empty: "fcard (fmdom (assigned_subtasks ex_init)) = 0"
      "fcard (fmdom (task_to_subtask_mapping ex_init)) = 0"
      "task_id ex_ctd |\<notin>| fmdom (task_to_subtask_mapping ex_init)"
    by (simp_all add: ex_init_eq)
  show ?thesis
    using task_given_twice [OF fresh refl, of ex_env ex_env_later] fresh empty
    by (simp add: fcard_finsert_disjoint)
qed

section \<open>The tick\<close>

text \<open>
  Claim C8 as stated fails when \<open>compute_tasks\<close> is off: the node waits for resources with
  \<open>use_waiting_ttl\<close> set and 30 seconds to live, no task is counted, 35 seconds have passed
  since \<open>last_checking\<close>, and \<open>run\<close> changes nothing.
\<close>

theorem run_gated_no_ttl_tick:
  "\<not> counting_truthy (counting_task ex_paused) \<and> waiting_for_task ex_paused \<noteq> None
   \<and> use_waiting_ttl ex_paused
   \<and> waiting_ttl ex_paused - (time_time ex_env_later - last_checking ex_paused) < 0
   \<and> run ex_env_later ex_paused = (ex_paused, [])
   \<and> waiting_ttl (fst (run ex_env_later ex_paused)) = 30
   \<and> waiting_for_task (fst (run ex_env_later ex_paused)) = Some (Handle ''h2'')"
  by (simp add: run_def ex_paused_eq ex_given_eq ex_env_later_def ex_env_def)

text \<open>
  Claim C8, amended. On every tick of \<open>run\<close> in a state where \<open>counting_task\<close> is not set,
  \<open>compute_tasks\<close> and \<open>runnable\<close> are both true, \<open>waiting_for_task\<close> is set and
  \<open>use_waiting_ttl\<close> is true, \<open>waiting_ttl\<close> is decremented by the time elapsed since
  \<open>last_checking\<close>, \<open>last_checking\<close> becomes the current time, and if the decremented
  \<open>waiting_ttl\<close> is below zero then \<open>reset()\<close> runs, clearing \<open>waiting_for_task\<close> and
  \<open>waiting_ttl\<close>.
\<close>

theorem run_waiting_ttl:
  assumes "\<not> counting_truthy (counting_task s)" and "waiting_for_task s \<noteq> None"
      and "use_waiting_ttl s" and "compute_tasks s" and "runnable s"
  shows "snd (run env s) = []
     \<and> last_checking (fst (run env s)) = time_time env
     \<and> (\<not> waiting_ttl s - (time_time env - last_checking s) < 0 \<longrightarrow>
          fst (run env s) = s\<lparr>waiting_ttl := waiting_ttl s - (time_time env - last_checking s),
                               last_checking := time_time env\<rparr>)
     \<and> (waiting_ttl s - (time_time env - last_checking s) < 0 \<longrightarrow>
          fst (run env s) =
            reset (s\<lparr>waiting_ttl := waiting_ttl s - (time_time env - last_checking s),
                      last_checking := time_time env\<rparr>) CFalse
          \<and> waiting_for_task (fst (run env s)) = None
          \<and> waiting_ttl (fst (run env s)) = 0
          \<and> \<not> use_waiting_ttl (fst (run env s)))"
  using assms by (auto simp: run_def Let_def reset_def)

theorem run_waiting_ttl_witness:
  "\<not> counting_truthy (counting_task ex_given) \<and> waiting_for_task ex_given \<noteq> None
   \<and> use_waiting_ttl ex_given \<and> compute_tasks ex_given \<and> runnable ex_given
   \<and> waiting_ttl ex_given - (time_time ex_env_later - last_checking ex_given) = - 5
   \<and> fst (run ex_env_later ex_given)
       = reset (ex_given\<lparr>waiting_ttl := - 5, last_checking := 45\<rparr>) CFalse
   \<and> waiting_for_task (fst (run ex_env_later ex_given)) = None
   \<and> waiting_ttl (fst (run ex_env_later ex_given)) = 0
   \<and> waiting_ttl ex_given - (time_time ex_env - last_checking ex_given) = 30
   \<and> fst (run ex_env ex_given) = ex_given\<lparr>waiting_ttl := 30, last_checking := 10\<rparr>"
proof -
  have pre: "\<not> counting_truthy (counting_task ex_given)" "waiting_for_task ex_given \<noteq> None"
    "use_waiting_ttl ex_given" "compute_tasks ex_given" "runnable ex_given"
    by (simp_all add: ex_given_eq)
  have vals: "waiting_ttl ex_given = 30" "last_checking ex_given = 10"
    "time_time ex_env_later = 45" "time_time ex_env = 10"
    by (simp_all add: ex_given_eq ex_env_later_def ex_env_def)
  show ?thesis
    using run_waiting_ttl [OF pre, of ex_env_later] run_waiting_ttl [OF pre, of ex_env]
    by (simp add: pre vals reset_def)
qed

section \<open>The compute step\<close>

text \<open>
  Claim C9 as stated fails when the task keeper holds no header of the subtask's task: line
  323 raises \<open>KeyError\<close>, the subtask stays in \<open>assigned_subtasks\<close> and \<open>send_task_failed\<close>
  is not called; the exception leaves \<open>task_resource_collected\<close>.
\<close>

theorem compute_task_direct_without_header:
  "fmlookup (assigned_subtasks ex_given_direct) ''s1'' = Some ex_ctd_direct
   \<and> docker_images ex_ctd_direct = []
   \<and> \<not> support_direct_computation ex_given_direct
   \<and> compute_task ex_env_no_header ex_given_direct ''s1'' [] ''code'' ''extra'' ''desc'' 70
       = (Some (KeyError ''t1''), ex_given_direct, [])
   \<and> fst (task_resource_collected ex_env_no_header ex_given_direct ''t1'' True)
       = Inl (KeyError ''t1'')
   \<and> filter is_outcome
        (snd (snd (task_resource_collected ex_env_no_header ex_given_direct ''t1'' True))) = []
   \<and> fmlookup (assigned_subtasks
        (fst (snd (task_resource_collected ex_env_no_header ex_given_direct ''t1'' True)))) ''s1''
       = Some ex_ctd_direct"
  by (simp add: task_resource_collected_def compute_task_def ex_env_no_header_def ex_env_def
        ex_given_direct_eq ex_given_eq ex_ctd_direct_def ex_ctd_def)

text \<open>
  Claim C9, amended. For every subtask whose \<open>docker_images\<close> is empty, while
  \<open>support_direct_computation\<close> is false, the compute step constructs no worker and appends
  nothing to \<open>current_computations\<close>; when the subtask is assigned and its task has a header
  in \<open>task_headers\<close>, it pops the subtask, calls \<open>send_task_failed\<close> with the reason
  \<open>Host direct task not supported\<close> and sets \<open>counting_task\<close> to \<open>None\<close>.
\<close>

theorem compute_task_without_worker:
  assumes "\<not> support_direct_computation s"
  shows "filter is_thread_start (snd (snd (compute_task env s sid [] code extra descr dl))) = []
     \<and> current_computations (fst (snd (compute_task env s sid [] code extra descr dl)))
         = current_computations s
     \<and> (\<forall>d h. fmlookup (assigned_subtasks s) sid = Some d
            \<and> fmlookup (task_headers env) (task_id d) = Some h \<longrightarrow>
          fst (compute_task env s sid [] code extra descr dl) = None
          \<and> assigned_subtasks (fst (snd (compute_task env s sid [] code extra descr dl)))
              = fmdrop sid (assigned_subtasks s)
          \<and> filter is_outcome (snd (snd (compute_task env s sid [] code extra descr dl)))
              = [Send_task_failed sid (task_id d) ''Host direct task not supported''
                   (return_address d) (return_port d) (key_id d) (task_owner d) (node_name s)]
          \<and> counting_task (fst (snd (compute_task env s sid [] code extra descr dl))) = CNone)"
proof -
  have no_worker:
    "filter is_thread_start (snd (snd (compute_task env s sid [] code extra descr dl))) = []
     \<and> current_computations (fst (snd (compute_task env s sid [] code extra descr dl)))
         = current_computations s"
    using assms by (simp add: compute_task_def Let_def reset_def split: option.splits)
  have failed: "fst (compute_task env s sid [] code extra descr dl) = None
          \<and> assigned_subtasks (fst (snd (compute_task env s sid [] code extra descr dl)))
              = fmdrop sid (assigned_subtasks s)
          \<and> filter is_outcome (snd (snd (compute_task env s sid [] code extra descr dl)))
              = [Send_task_failed sid (task_id d) ''Host direct task not supported''
                   (return_address d) (return_port d) (key_id d) (task_owner d) (node_name s)]
          \<and> counting_task (fst (snd (compute_task env s sid [] code extra descr dl))) = CNone"
    if "fmlookup (assigned_subtasks s) sid = Some d"
      and "fmlookup (task_headers env) (task_id d) = Some h" for d h
    using that assms by (simp add: compute_task_def Let_def reset_def)
  from no_worker failed show ?thesis by blast
qed

theorem compute_task_without_worker_witness:
  "\<not> support_direct_computation ex_given_direct
   \<and> fmlookup (assigned_subtasks ex_given_direct) ''s1'' = Some ex_ctd_direct
   \<and> fmlookup (task_headers ex_env) (task_id ex_ctd_direct) = Some ex_header
   \<and> filter is_thread_start
        (snd (snd (compute_task ex_env ex_given_direct ''s1'' [] ''code'' ''extra'' ''desc'' 70)))
       = []
   \<and> current_computations
        (fst (snd (compute_task ex_env ex_given_direct ''s1'' [] ''code'' ''extra'' ''desc'' 70)))
       = current_computations ex_given_direct
   \<and> fst (compute_task ex_env ex_given_direct ''s1'' [] ''code'' ''extra'' ''desc'' 70) = None
   \<and> filter is_outcome
        (snd (snd (compute_task ex_env ex_given_direct ''s1'' [] ''code'' ''extra'' ''desc'' 70)))
       = [Send_task_failed ''s1'' ''t1'' ''Host direct task not supported'' ''10.0.0.1'' 40102
            ''key'' ''owner'' ''node'']
   \<and> counting_task
        (fst (snd (compute_task ex_env ex_given_direct ''s1'' [] ''code'' ''extra'' ''desc'' 70)))
       = CNone
   \<and> filter is_thread_start
        (snd (snd (compute_task ex_env_no_header ex_given_direct ''s1'' [] ''code'' ''extra''
           ''desc'' 70))) = []
   \<and> current_computations
        (fst (snd (compute_task ex_env_no_header ex_given_direct ''s1'' [] ''code'' ''extra''
           ''desc'' 70))) = current_computations ex_given_direct"
proof -
  have direct: "\<not> support_direct_computation ex_given_direct"
    by (simp add: ex_given_direct_eq ex_given_eq)
  have pre: "fmlookup (assigned_subtasks ex_given_direct) ''s1'' = Some ex_ctd_direct"
    "fmlookup (task_headers ex_env) (task_id ex_ctd_direct) = Some ex_header"
    by (simp_all add: ex_given_direct_eq ex_given_eq ex_env_def ex_ctd_direct_def ex_ctd_def)
  have vals: "task_id ex_ctd_direct = ''t1''" "return_address ex_ctd_direct = ''10.0.0.1''"
    "return_port ex_ctd_direct = 40102" "key_id ex_ctd_direct = ''key''"
    "task_owner ex_ctd_direct = ''owner''" "node_name ex_given_direct = ''node''"
    by (simp_all add: ex_given_direct_eq ex_given_eq ex_ctd_direct_def ex_ctd_def)
  show ?thesis
    using compute_task_without_worker [OF direct, of ex_env "''s1''" "''code''" "''extra''"
            "''desc''" 70]
      compute_task_without_worker [OF direct, of ex_env_no_header "''s1''" "''code''" "''extra''"
            "''desc''" 70]
      direct pre
    by (simp add: vals)
qed

text \<open>
  The calls of the two callbacks that run the compute step are those of the compute step,
  after the \<open>unpack_delta\<close> of \<open>task_resource_collected\<close>.
\<close>

lemma task_resource_collected_calls:
  assumes "fmlookup (task_to_subtask_mapping s) t = Some sid"
      and "fmlookup (assigned_subtasks s) sid = Some d"
  shows "snd (snd (task_resource_collected env s t u)) =
           (if u then [Unpack_delta (get_task_resource_dir env t) (delta s) t] else [])
           @ snd (snd (compute_task env
                (s\<lparr>delta := None, last_task_timeout_checking := Some (time_time env)\<rparr>) sid
                (docker_images d) (src_code d) (extra_data d) (short_description d) (deadline d)))"
proof -
  obtain e s' effs where c: "compute_task env
                (s\<lparr>delta := None, last_task_timeout_checking := Some (time_time env)\<rparr>) sid
                (docker_images d) (src_code d) (extra_data d) (short_description d) (deadline d)
              = (e, s', effs)"
    by (cases "compute_task env
                (s\<lparr>delta := None, last_task_timeout_checking := Some (time_time env)\<rparr>) sid
                (docker_images d) (src_code d) (extra_data d) (short_description d) (deadline d)")
  show ?thesis
    using assms by (cases e) (simp_all add: task_resource_collected_def Let_def c)
qed

lemma resource_given_calls:
  assumes "fmlookup (task_to_subtask_mapping s) t = Some sid"
      and "fmlookup (assigned_subtasks s) sid = Some d"
  shows "snd (snd (resource_given env s t)) =
           snd (snd (compute_task env s sid
                (docker_images d) (src_code d) (extra_data d) (short_description d) (deadline d)))"
proof -
  obtain e s' effs where c: "compute_task env s sid
                (docker_images d) (src_code d) (extra_data d) (short_description d) (deadline d)
              = (e, s', effs)"
    by (cases "compute_task env s sid
                (docker_images d) (src_code d) (extra_data d) (short_description d) (deadline d)")
  show ?thesis
    using assms by (cases e) (simp_all add: resource_given_def c)
qed

lemma compute_task_thread_timeout:
  assumes "Thread_start tt \<in> set (snd (snd (compute_task env s sid imgs code extra descr dl)))"
  shows "\<exists>d h. fmlookup (assigned_subtasks s) sid = Some d
            \<and> fmlookup (task_headers env) (task_id d) = Some h
            \<and> timeout tt = deadline_to_timeout env (py_min (header_deadline h) dl)"
proof (cases "fmlookup (assigned_subtasks s) sid")
  case None
  with assms show ?thesis by (simp add: compute_task_def)
next
  case (Some d)
  note reg = this
  show ?thesis
  proof (cases "fmlookup (task_headers env) (task_id d)")
    case None
    with assms reg show ?thesis by (simp add: compute_task_def)
  next
    case (Some h)
    with assms reg show ?thesis
      by (auto simp: compute_task_def Let_def new_thread_def split: if_splits)
  qed
qed

text \<open>
  Claim C10. Every worker that \<open>task_resource_collected\<close> or \<open>resource_given\<close> constructs
  gets as its timeout \<open>deadline_to_timeout\<close> of the minimum of the task header's deadline
  and the subtask's own deadline: of the subtask's deadline when that is the earlier one, and
  of the task's deadline otherwise, so a subtask deadline later than the task's does not
  extend the worker's time.
\<close>

theorem worker_timeout_is_min_deadline:
  "\<forall>tt. Thread_start tt \<in> set (snd (snd (task_resource_collected env s t u)))
          \<or> Thread_start tt \<in> set (snd (snd (resource_given env s t))) \<longrightarrow>
     (\<exists>sid d h. fmlookup (task_to_subtask_mapping s) t = Some sid
         \<and> fmlookup (assigned_subtasks s) sid = Some d
         \<and> fmlookup (task_headers env) (task_id d) = Some h
         \<and> timeout tt = deadline_to_timeout env (py_min (header_deadline h) (deadline d))
         \<and> (deadline d < header_deadline h \<longrightarrow>
              timeout tt = deadline_to_timeout env (deadline d))
         \<and> (\<not> deadline d < header_deadline h \<longrightarrow>
              timeout tt = deadline_to_timeout env (header_deadline h)))"
proof (intro allI impI)
  fix tt
  assume started: "Thread_start tt \<in> set (snd (snd (task_resource_collected env s t u)))
          \<or> Thread_start tt \<in> set (snd (snd (resource_given env s t)))"
  show "\<exists>sid d h. fmlookup (task_to_subtask_mapping s) t = Some sid
         \<and> fmlookup (assigned_subtasks s) sid = Some d
         \<and> fmlookup (task_headers env) (task_id d) = Some h
         \<and> timeout tt = deadline_to_timeout env (py_min (header_deadline h) (deadline d))
         \<and> (deadline d < header_deadline h \<longrightarrow>
              timeout tt = deadline_to_timeout env (deadline d))
         \<and> (\<not> deadline d < header_deadline h \<longrightarrow>
              timeout tt = deadline_to_timeout env (header_deadline h))"
  proof (cases "fmlookup (task_to_subtask_mapping s) t")
    case None
    with started show ?thesis
      by (simp add: task_resource_collected_def resource_given_def)
  next
    case (Some sid)
    note mapped = this
    show ?thesis
    proof (cases "fmlookup (assigned_subtasks s) sid")
      case None
      with started mapped show ?thesis
        by (simp add: task_resource_collected_def resource_given_def)
    next
      case (Some d)
      let ?s2 = "s\<lparr>delta := None, last_task_timeout_checking := Some (time_time env)\<rparr>"
      have "Thread_start tt \<in> set (snd (snd (compute_task env ?s2 sid (docker_images d)
                (src_code d) (extra_data d) (short_description d) (deadline d))))
          \<or> Thread_start tt \<in> set (snd (snd (compute_task env s sid (docker_images d)
                (src_code d) (extra_data d) (short_description d) (deadline d))))"
        using started
        unfolding task_resource_collected_calls [OF mapped Some] resource_given_calls [OF mapped Some]
        by (simp split: if_splits)
      then have "\<exists>d' h. fmlookup (assigned_subtasks s) sid = Some d'
            \<and> fmlookup (task_headers env) (task_id d') = Some h
            \<and> timeout tt = deadline_to_timeout env (py_min (header_deadline h) (deadline d))"
      proof
        assume "Thread_start tt \<in> set (snd (snd (compute_task env ?s2 sid (docker_images d)
                (src_code d) (extra_data d) (short_description d) (deadline d))))"
        from compute_task_thread_timeout [OF this] show ?thesis by simp
      next
        assume "Thread_start tt \<in> set (snd (snd (compute_task env s sid (docker_images d)
                (src_code d) (extra_data d) (short_description d) (deadline d))))"
        from compute_task_thread_timeout [OF this] show ?thesis .
      qed
      then obtain h where hdr: "fmlookup (task_headers env) (task_id d) = Some h"
          and tmo: "timeout tt = deadline_to_timeout env (py_min (header_deadline h) (deadline d))"
        using Some by auto
      have later: "\<not> deadline d < header_deadline h \<Longrightarrow>
              timeout tt = deadline_to_timeout env (header_deadline h)"
        using tmo by (simp add: py_min_def)
      have earlier: "deadline d < header_deadline h \<Longrightarrow>
              timeout tt = deadline_to_timeout env (deadline d)"
        using tmo by (simp add: py_min_def)
      from mapped Some hdr tmo later earlier show ?thesis by blast
    qed
  qed
qed

theorem worker_timeout_is_min_deadline_witness:
  "Thread_start (new_thread ex_env (DockerTaskThread [''img:1'']) ''s1'' ''work'' ''code''
       ''extra'' ''desc'' ''/res/t1'' ''/tmp/t1/u1'' 60)
     \<in> set (snd (snd (task_resource_collected ex_env ex_given ''t1'' True)))
   \<and> fmlookup (task_to_subtask_mapping ex_given) ''t1'' = Some ''s1''
   \<and> fmlookup (assigned_subtasks ex_given) ''s1'' = Some ex_ctd
   \<and> fmlookup (task_headers ex_env) (task_id ex_ctd) = Some ex_header
   \<and> deadline ex_ctd < header_deadline ex_header
   \<and> deadline_to_timeout ex_env (deadline ex_ctd) = 60
   \<and> timeout (new_thread ex_env (DockerTaskThread [''img:1'']) ''s1'' ''work'' ''code''
        ''extra'' ''desc'' ''/res/t1'' ''/tmp/t1/u1'' 60)
       = deadline_to_timeout ex_env (deadline ex_ctd)
   \<and> Thread_start (new_thread ex_env (DockerTaskThread [''img:1'']) ''s1'' ''work'' ''code''
       ''extra'' ''desc'' ''/res/t1'' ''/tmp/t1/u1'' 90)
     \<in> set (snd (snd (resource_given ex_env ex_given_late ''t1'')))
   \<and> fmlookup (task_to_subtask_mapping ex_given_late) ''t1'' = Some ''s1''
   \<and> fmlookup (assigned_subtasks ex_given_late) ''s1'' = Some ex_ctd_late
   \<and> fmlookup (task_headers ex_env) (task_id ex_ctd_late) = Some ex_header
   \<and> \<not> deadline ex_ctd_late < header_deadline ex_header
   \<and> deadline_to_timeout ex_env (header_deadline ex_header) = 90
   \<and> timeout (new_thread ex_env (DockerTaskThread [''img:1'']) ''s1'' ''work'' ''code''
        ''extra'' ''desc'' ''/res/t1'' ''/tmp/t1/u1'' 90)
       = deadline_to_timeout ex_env (header_deadline ex_header)"
proof -
  let ?early = "new_thread ex_env (DockerTaskThread [''img:1'']) ''s1'' ''work'' ''code''
       ''extra'' ''desc'' ''/res/t1'' ''/tmp/t1/u1'' 60"
  let ?late = "new_thread ex_env (DockerTaskThread [''img:1'']) ''s1'' ''work'' ''code''
       ''extra'' ''desc'' ''/res/t1'' ''/tmp/t1/u1'' 90"
  have started: "Thread_start ?early
        \<in> set (snd (snd (task_resource_collected ex_env ex_given ''t1'' True)))"
    "Thread_start ?late \<in> set (snd (snd (resource_given ex_env ex_given_late ''t1'')))"
    by (simp_all add: task_resource_collected_def resource_given_def compute_task_def Let_def
          ex_given_late_eq ex_given_eq ex_ctd_late_def ex_ctd_def ex_env_def ex_header_def
          py_min_def reset_def os_path_join_def)
  have early: "fmlookup (task_to_subtask_mapping ex_given) ''t1'' = Some ''s1''"
    "fmlookup (assigned_subtasks ex_given) ''s1'' = Some ex_ctd"
    "fmlookup (task_headers ex_env) (task_id ex_ctd) = Some ex_header"
    "deadline ex_ctd < header_deadline ex_header"
    "deadline_to_timeout ex_env (deadline ex_ctd) = 60"
    by (simp_all add: ex_given_eq ex_ctd_def ex_env_def ex_header_def)
  have late: "fmlookup (task_to_subtask_mapping ex_given_late) ''t1'' = Some ''s1''"
    "fmlookup (assigned_subtasks ex_given_late) ''s1'' = Some ex_ctd_late"
    "fmlookup (task_headers ex_env) (task_id ex_ctd_late) = Some ex_header"
    "\<not> deadline ex_ctd_late < header_deadline ex_header"
    "deadline_to_timeout ex_env (header_deadline ex_header) = 90"
    by (simp_all add: ex_given_late_eq ex_given_eq ex_ctd_late_def ex_ctd_def ex_env_def
          ex_header_def)
  from worker_timeout_is_min_deadline [of ex_env ex_given "''t1''" True] started(1)
  obtain sid d h where "fmlookup (task_to_subtask_mapping ex_given) ''t1'' = Some sid"
      and "fmlookup (assigned_subtasks ex_given) sid = Some d"
      and "fmlookup (task_headers ex_env) (task_id d) = Some h"
      and imp: "deadline d < header_deadline h \<longrightarrow>
                  timeout ?early = deadline_to_timeout ex_env (deadline d)"
    by blast
  with early have "sid = ''s1''" "d = ex_ctd" "h = ex_header" by simp_all
  with imp early(4) have first: "timeout ?early = deadline_to_timeout ex_env (deadline ex_ctd)"
    by simp
  from worker_timeout_is_min_deadline [of ex_env ex_given_late "''t1''" False] started(2)
  obtain sid' d' h' where "fmlookup (task_to_subtask_mapping ex_given_late) ''t1'' = Some sid'"
      and "fmlookup (assigned_subtasks ex_given_late) sid' = Some d'"
      and "fmlookup (task_headers ex_env) (task_id d') = Some h'"
      and imp': "\<not> deadline d' < header_deadline h' \<longrightarrow>
                  timeout ?late = deadline_to_timeout ex_env (header_deadline h')"
    by blast
  with late have "sid' = ''s1''" "d' = ex_ctd_late" "h' = ex_header" by simp_all
  with imp' late(4)
  have second: "timeout ?late = deadline_to_timeout ex_env (header_deadline ex_header)"
    by simp
  from started early late first second show ?thesis by blast
qed

section \<open>The \<open>runnable\<close> gate\<close>

text \<open>
  The compute step and its two callers never read \<open>runnable\<close>; the tick does nothing but
  check timeouts while \<open>runnable\<close> is false; no other method starts a worker.
\<close>

lemma compute_task_runnable:
  "compute_task env (s\<lparr>runnable := b\<rparr>) sid imgs code extra descr dl =
     (case compute_task env s sid imgs code extra descr dl of
        (e, s', effs) \<Rightarrow> (e, s'\<lparr>runnable := b\<rparr>, effs))"
proof (cases "fmlookup (assigned_subtasks s) sid")
  case None
  then show ?thesis by (simp add: compute_task_def)
next
  case (Some d)
  then show ?thesis
    by (cases "fmlookup (task_headers env) (task_id d)")
       (simp_all add: compute_task_def Let_def reset_def)
qed

lemma task_resource_collected_runnable:
  "task_resource_collected env (s\<lparr>runnable := b\<rparr>) t u =
     (case task_resource_collected env s t u of (r, s', effs) \<Rightarrow> (r, s'\<lparr>runnable := b\<rparr>, effs))"
proof (cases "fmlookup (task_to_subtask_mapping s) t")
  case None
  then show ?thesis by (simp add: task_resource_collected_def)
next
  case (Some sid)
  note mapped = this
  show ?thesis
  proof (cases "fmlookup (assigned_subtasks s) sid")
    case None
    with mapped show ?thesis by (simp add: task_resource_collected_def)
  next
    case (Some d)
    let ?s2 = "s\<lparr>delta := None, last_task_timeout_checking := Some (time_time env)\<rparr>"
    have swap: "s\<lparr>runnable := b, delta := None,
                   last_task_timeout_checking := Some (time_time env)\<rparr> = ?s2\<lparr>runnable := b\<rparr>"
      by simp
    obtain e s' effs where c: "compute_task env ?s2 sid (docker_images d) (src_code d)
          (extra_data d) (short_description d) (deadline d) = (e, s', effs)"
      by (cases "compute_task env ?s2 sid (docker_images d) (src_code d)
          (extra_data d) (short_description d) (deadline d)")
    show ?thesis
      using mapped Some
      by (cases e)
         (simp_all add: task_resource_collected_def Let_def swap compute_task_runnable c
            del: task_computer.update_convs)
  qed
qed

lemma resource_given_runnable:
  "resource_given env (s\<lparr>runnable := b\<rparr>) t =
     (case resource_given env s t of (r, s', effs) \<Rightarrow> (r, s'\<lparr>runnable := b\<rparr>, effs))"
proof (cases "fmlookup (task_to_subtask_mapping s) t")
  case None
  then show ?thesis by (simp add: resource_given_def)
next
  case (Some sid)
  note mapped = this
  show ?thesis
  proof (cases "fmlookup (assigned_subtasks s) sid")
    case None
    with mapped show ?thesis by (simp add: resource_given_def)
  next
    case (Some d)
    obtain e s' effs where c: "compute_task env s sid (docker_images d) (src_code d)
          (extra_data d) (short_description d) (deadline d) = (e, s', effs)"
      by (cases "compute_task env s sid (docker_images d) (src_code d)
          (extra_data d) (short_description d) (deadline d)")
    show ?thesis
      using mapped Some
      by (cases e) (simp_all add: resource_given_def compute_task_runnable c)
  qed
qed

lemma run_not_runnable:
  assumes "\<not> runnable s"
  shows "filter is_request_task (snd (run env s)) = []"
    and "filter is_thread_start (snd (run env s)) = []"
    and "fst (run env s) = s"
  using assms by (simp_all add: run_def filter_empty_conv)

lemma length_remove_thread: "length (remove_thread x xs) \<le> length xs"
  by (induction xs) auto

lemma request_task_no_thread:
  "filter is_thread_start (snd (request_task env s)) = []"
  "current_computations (fst (request_task env s)) = current_computations s"
  by (simp_all add: request_task_def Let_def wait_def split: option.splits)

lemma check_timeout_no_thread:
  "filter is_thread_start (map (\<lambda>task_thread. Check_timeout (f task_thread)) xs) = []"
  by (induction xs) simp_all

lemma run_no_thread:
  "filter is_thread_start (snd (run env s)) = []"
  "current_computations (fst (run env s)) = current_computations s"
  by (simp_all add: run_def Let_def reset_def request_task_no_thread check_timeout_no_thread)

lemma task_computed_no_thread:
  "filter is_thread_start (snd (task_computed env s tt)) = []"
  "length (current_computations (fst (task_computed env s tt))) \<le> length (current_computations s)"
  by (simp_all add: task_computed_def Let_def length_remove_thread split: option.splits)

lemma other_events_no_thread:
  assumes "\<not> is_compute_event ev"
  shows "filter is_thread_start (snd (step env s ev)) = []
       \<and> length (current_computations (fst (step env s ev))) \<le> length (current_computations s)"
proof (cases ev)
  case (Task_given c)
  then show ?thesis
    by (simp add: task_given_def request_resource_def wait_def Let_def)
next
  case (Task_resource_failure t r)
  then show ?thesis
    by (simp add: task_resource_failure_def session_closed_def reset_def Let_def
          split: option.splits)
next
  case (Wait_for_resources t d)
  then show ?thesis by (simp add: wait_for_resources_def split: option.splits)
next
  case (Task_request_rejected t r)
  then show ?thesis by (simp add: task_request_rejected_def)
next
  case (Resource_request_rejected sid r)
  then show ?thesis by (simp add: resource_request_rejected_def reset_def Let_def)
next
  case (Task_computed tt)
  then show ?thesis by (simp add: task_computed_no_thread)
next
  case Run
  then show ?thesis by (simp add: run_no_thread)
next
  case (Reset c)
  then show ?thesis by (simp add: reset_def)
next
  case (Wait w ttl)
  then show ?thesis by (simp add: wait_def Let_def split: option.splits)
next
  case Session_timeout
  then show ?thesis by (simp add: session_timeout_def session_closed_def reset_def)
next
  case Session_closed
  then show ?thesis by (simp add: session_closed_def reset_def)
next
  case (Change_config c b r)
  then show ?thesis
    by (simp add: change_config_def change_docker_config_def lock_config_def Let_def
          filter_empty_conv)
next
  case (Done_callback r)
  then show ?thesis by (simp add: done_callback_def lock_config_def filter_empty_conv)
next
  case (Register_listener l)
  then show ?thesis by (simp add: register_listener_def)
next
  case Quit
  then show ?thesis by (simp add: quit_def filter_empty_conv)
qed (use assms in simp_all)

text \<open>
  Claim C7 as stated fails: while the container reconfiguration is under way and \<open>runnable\<close>
  is false, \<open>task_resource_collected\<close> for the assigned subtask \<open>s1\<close> constructs and starts
  a docker worker and appends it to \<open>current_computations\<close>.
\<close>

theorem worker_started_while_not_runnable:
  "\<not> runnable ex_locked
   \<and> fst (task_resource_collected ex_env ex_locked ''t1'' True) = Inr (Some True)
   \<and> filter is_thread_start (snd (snd (task_resource_collected ex_env ex_locked ''t1'' True)))
       = [Thread_start (new_thread ex_env (DockerTaskThread [''img:1'']) ''s1'' ''work'' ''code''
            ''extra'' ''desc'' ''/res/t1'' ''/tmp/t1/u1'' 60)]
   \<and> current_computations (fst (snd (task_resource_collected ex_env ex_locked ''t1'' True)))
       = current_computations ex_locked
         @ [new_thread ex_env (DockerTaskThread [''img:1'']) ''s1'' ''work'' ''code''
            ''extra'' ''desc'' ''/res/t1'' ''/tmp/t1/u1'' 60]
   \<and> \<not> runnable (fst (snd (task_resource_collected ex_env ex_locked ''t1'' True)))"
  by (simp add: task_resource_collected_def compute_task_def Let_def ex_locked_eq ex_given_eq
        ex_ctd_def ex_env_def ex_header_def py_min_def reset_def os_path_join_def)

text \<open>
  Claim C7, amended. In every state in which \<open>runnable\<close> is false the tick \<open>run\<close> requests
  no task and changes nothing; no method other than \<open>task_resource_collected\<close> and
  \<open>resource_given\<close> constructs a worker or lengthens \<open>current_computations\<close>, in any
  state; and these two do not consult \<open>runnable\<close>: they do with \<open>runnable\<close> false exactly
  what they do with \<open>runnable\<close> true.
\<close>

theorem runnable_gates_only_the_tick:
  "(\<not> runnable s \<longrightarrow>
      filter is_request_task (snd (run env s)) = [] \<and> fst (run env s) = s)
   \<and> (\<not> is_compute_event ev \<longrightarrow>
      filter is_thread_start (snd (step env s ev)) = []
      \<and> length (current_computations (fst (step env s ev))) \<le> length (current_computations s))
   \<and> task_resource_collected env (s\<lparr>runnable := b\<rparr>) t u =
       (case task_resource_collected env s t u of
          (r, s', effs) \<Rightarrow> (r, s'\<lparr>runnable := b\<rparr>, effs))
   \<and> resource_given env (s\<lparr>runnable := b\<rparr>) t =
       (case resource_given env s t of (r, s', effs) \<Rightarrow> (r, s'\<lparr>runnable := b\<rparr>, effs))"
  using run_not_runnable(1,3) [where s = s and env = env]
    other_events_no_thread [where ev = ev and env = env and s = s]
    task_resource_collected_runnable [where env = env and s = s and b = b and t = t and u = u]
    resource_given_runnable [where env = env and s = s and b = b and t = t]
  by blast

theorem runnable_gates_only_the_tick_witness:
  "\<not> runnable ex_locked \<and> \<not> is_compute_event (Run :: int event)
   \<and> filter is_request_task (snd (run ex_env_later ex_locked)) = []
   \<and> fst (run ex_env_later ex_locked) = ex_locked
   \<and> filter is_thread_start (snd (step ex_env_later ex_locked Run)) = []
   \<and> length (current_computations (fst (step ex_env_later ex_locked Run)))
       \<le> length (current_computations ex_locked)"
proof -
  have locked: "\<not> runnable ex_locked"
    by (simp add: ex_locked_eq)
  have tick: "\<not> is_compute_event (Run :: int event)"
    by simp
  show ?thesis
    using runnable_gates_only_the_tick [where s = ex_locked and env = ex_env_later and ev = Run]
      locked tick
    by blast
qed

section \<open>The two registry maps\<close>

text \<open>
  \<open>task_given\<close> writes both maps and \<open>task_resource_failure\<close> pops from both; every other
  method leaves \<open>task_to_subtask_mapping\<close> alone and at most removes an entry of
  \<open>assigned_subtasks\<close>.
\<close>

lemma registry_inv_iff:
  "registry_inv s \<longleftrightarrow>
     (\<forall>sid d. fmlookup (assigned_subtasks s) sid = Some d \<longrightarrow>
        subtask_id d = sid \<and> fmlookup (task_to_subtask_mapping s) (task_id d) = Some sid)"
  by (simp add: registry_inv_def fmpred_iff)

lemma registry_inv_shrink:
  assumes "registry_inv s"
      and "task_to_subtask_mapping s' = task_to_subtask_mapping s"
      and "\<And>sid d. fmlookup (assigned_subtasks s') sid = Some d
              \<Longrightarrow> fmlookup (assigned_subtasks s) sid = Some d"
  shows "registry_inv s'"
  using assms unfolding registry_inv_iff by metis

lemma compute_task_registry:
  "task_to_subtask_mapping (fst (snd (compute_task env s sid imgs code extra descr dl)))
     = task_to_subtask_mapping s"
  "fmlookup (assigned_subtasks (fst (snd (compute_task env s sid imgs code extra descr dl)))) k
     = Some v \<Longrightarrow> fmlookup (assigned_subtasks s) k = Some v"
proof -
  show "task_to_subtask_mapping (fst (snd (compute_task env s sid imgs code extra descr dl)))
     = task_to_subtask_mapping s"
    by (simp add: compute_task_def Let_def reset_def split: option.splits)
  assume "fmlookup (assigned_subtasks (fst (snd (compute_task env s sid imgs code extra descr dl)))) k
     = Some v"
  then show "fmlookup (assigned_subtasks s) k = Some v"
    by (simp add: compute_task_def Let_def reset_def split: option.splits if_splits)
qed

lemma resource_given_registry:
  "task_to_subtask_mapping (fst (snd (resource_given env s t))) = task_to_subtask_mapping s"
  "fmlookup (assigned_subtasks (fst (snd (resource_given env s t)))) k = Some v
     \<Longrightarrow> fmlookup (assigned_subtasks s) k = Some v"
proof -
  have both: "task_to_subtask_mapping (fst (snd (resource_given env s t)))
                = task_to_subtask_mapping s
      \<and> (fmlookup (assigned_subtasks (fst (snd (resource_given env s t)))) k = Some v
           \<longrightarrow> fmlookup (assigned_subtasks s) k = Some v)"
  proof (cases "fmlookup (task_to_subtask_mapping s) t")
    case None
    then show ?thesis by (simp add: resource_given_def)
  next
    case (Some sid)
    note mapped = this
    show ?thesis
    proof (cases "fmlookup (assigned_subtasks s) sid")
      case None
      with mapped show ?thesis by (simp add: resource_given_def)
    next
      case (Some d)
      obtain e s' effs where c: "compute_task env s sid (docker_images d) (src_code d)
            (extra_data d) (short_description d) (deadline d) = (e, s', effs)"
        by (cases "compute_task env s sid (docker_images d) (src_code d)
            (extra_data d) (short_description d) (deadline d)")
      have s': "task_to_subtask_mapping s' = task_to_subtask_mapping s"
        "fmlookup (assigned_subtasks s') k = Some v \<Longrightarrow> fmlookup (assigned_subtasks s) k = Some v"
        using compute_task_registry(1) [of env s sid "docker_images d" "src_code d"
                "extra_data d" "short_description d" "deadline d"]
          compute_task_registry(2) [of env s sid "docker_images d" "src_code d"
                "extra_data d" "short_description d" "deadline d" k v]
        by (simp_all add: c)
      show ?thesis
        using mapped Some s' by (cases e) (simp_all add: resource_given_def c)
    qed
  qed
  from both show "task_to_subtask_mapping (fst (snd (resource_given env s t)))
                = task_to_subtask_mapping s" by simp
  assume "fmlookup (assigned_subtasks (fst (snd (resource_given env s t)))) k = Some v"
  with both show "fmlookup (assigned_subtasks s) k = Some v" by simp
qed

lemma task_resource_collected_registry:
  "task_to_subtask_mapping (fst (snd (task_resource_collected env s t u)))
     = task_to_subtask_mapping s"
  "fmlookup (assigned_subtasks (fst (snd (task_resource_collected env s t u)))) k = Some v
     \<Longrightarrow> fmlookup (assigned_subtasks s) k = Some v"
proof -
  have both: "task_to_subtask_mapping (fst (snd (task_resource_collected env s t u)))
                = task_to_subtask_mapping s
      \<and> (fmlookup (assigned_subtasks (fst (snd (task_resource_collected env s t u)))) k = Some v
           \<longrightarrow> fmlookup (assigned_subtasks s) k = Some v)"
  proof (cases "fmlookup (task_to_subtask_mapping s) t")
    case None
    then show ?thesis by (simp add: task_resource_collected_def)
  next
    case (Some sid)
    note mapped = this
    show ?thesis
    proof (cases "fmlookup (assigned_subtasks s) sid")
      case None
      with mapped show ?thesis by (simp add: task_resource_collected_def)
    next
      case (Some d)
      let ?s2 = "s\<lparr>delta := None, last_task_timeout_checking := Some (time_time env)\<rparr>"
      obtain e s' effs where c: "compute_task env ?s2 sid (docker_images d) (src_code d)
            (extra_data d) (short_description d) (deadline d) = (e, s', effs)"
        by (cases "compute_task env ?s2 sid (docker_images d) (src_code d)
            (extra_data d) (short_description d) (deadline d)")
      have s': "task_to_subtask_mapping s' = task_to_subtask_mapping s"
        "fmlookup (assigned_subtasks s') k = Some v \<Longrightarrow> fmlookup (assigned_subtasks s) k = Some v"
        using compute_task_registry(1) [of env ?s2 sid "docker_images d" "src_code d"
                "extra_data d" "short_description d" "deadline d"]
          compute_task_registry(2) [of env ?s2 sid "docker_images d" "src_code d"
                "extra_data d" "short_description d" "deadline d" k v]
        by (simp_all add: c)
      show ?thesis
        using mapped Some s'
        by (cases e) (simp_all add: task_resource_collected_def Let_def c)
    qed
  qed
  from both show "task_to_subtask_mapping (fst (snd (task_resource_collected env s t u)))
                = task_to_subtask_mapping s" by simp
  assume "fmlookup (assigned_subtasks (fst (snd (task_resource_collected env s t u)))) k = Some v"
  with both show "fmlookup (assigned_subtasks s) k = Some v" by simp
qed

lemma task_computed_registry:
  "task_to_subtask_mapping (fst (task_computed env s tt)) = task_to_subtask_mapping s"
  "fmlookup (assigned_subtasks (fst (task_computed env s tt))) k = Some v
     \<Longrightarrow> fmlookup (assigned_subtasks s) k = Some v"
proof -
  show "task_to_subtask_mapping (fst (task_computed env s tt)) = task_to_subtask_mapping s"
    by (simp add: task_computed_def Let_def split: option.splits)
  assume "fmlookup (assigned_subtasks (fst (task_computed env s tt))) k = Some v"
  then show "fmlookup (assigned_subtasks s) k = Some v"
    by (simp add: task_computed_def Let_def split: option.splits if_splits)
qed

lemma run_registry:
  "task_to_subtask_mapping (fst (run env s)) = task_to_subtask_mapping s"
  "assigned_subtasks (fst (run env s)) = assigned_subtasks s"
  by (simp_all add: run_def request_task_def wait_def reset_def Let_def split: option.splits)

lemma task_given_accepts:
  assumes "subtask_id c |\<notin>| fmdom (assigned_subtasks s)"
  shows "assigned_subtasks (fst (snd (task_given env s c)))
           = fmupd (subtask_id c) c (assigned_subtasks s)"
    and "task_to_subtask_mapping (fst (snd (task_given env s c)))
           = fmupd (task_id c) (subtask_id c) (task_to_subtask_mapping s)"
  using assms by (simp_all add: task_given_def request_resource_def wait_def Let_def)

lemma task_given_registry:
  assumes "registry_inv s" and "admissible_event s (Task_given c)"
  shows "registry_inv (fst (snd (task_given env s c)))"
proof (cases "subtask_id c |\<in>| fmdom (assigned_subtasks s)")
  case True
  with assms(1) show ?thesis by (simp add: task_given_def)
next
  case False
  with assms(2) have other: "\<forall>sid d. fmlookup (assigned_subtasks s) sid = Some d
                               \<longrightarrow> task_id d \<noteq> task_id c"
    by (simp add: fmpred_iff)
  note after = task_given_accepts [OF False, of env]
  show ?thesis
    unfolding registry_inv_iff after
  proof (intro allI impI)
    fix sid d
    assume new: "fmlookup (fmupd (subtask_id c) c (assigned_subtasks s)) sid = Some d"
    show "subtask_id d = sid
        \<and> fmlookup (fmupd (task_id c) (subtask_id c) (task_to_subtask_mapping s)) (task_id d)
            = Some sid"
    proof (cases "sid = subtask_id c")
      case True
      with new have "d = c" by simp
      with True show ?thesis by simp
    next
      case False
      with new have old: "fmlookup (assigned_subtasks s) sid = Some d" by simp
      with other have "task_id d \<noteq> task_id c" by blast
      moreover from assms(1) old
      have "subtask_id d = sid \<and> fmlookup (task_to_subtask_mapping s) (task_id d) = Some sid"
        by (simp add: registry_inv_iff)
      ultimately show ?thesis by simp
    qed
  qed
qed

lemma task_resource_failure_registry:
  assumes "registry_inv s"
  shows "registry_inv (fst (task_resource_failure s t r))"
proof (cases "fmlookup (task_to_subtask_mapping s) t")
  case None
  with assms show ?thesis by (simp add: task_resource_failure_def)
next
  case (Some sid)
  have after: "task_to_subtask_mapping (fst (task_resource_failure s t r))
                 = fmdrop t (task_to_subtask_mapping s)"
    "assigned_subtasks (fst (task_resource_failure s t r))
                 = fmdrop sid (assigned_subtasks s)"
    using Some
    by (auto simp: task_resource_failure_def session_closed_def reset_def Let_def fmdrop_idle
          fmdom_notI split: option.splits)
  show ?thesis
    unfolding registry_inv_iff after
    using assms Some by (auto simp: registry_inv_iff)
qed

lemma step_registry:
  assumes "registry_inv s" and "admissible_event s ev"
  shows "registry_inv (fst (step env s ev))"
proof (cases ev)
  case (Task_given c)
  with assms show ?thesis by (simp add: task_given_registry)
next
  case (Resource_given t)
  then show ?thesis
    using registry_inv_shrink [OF assms(1) resource_given_registry(1) resource_given_registry(2)]
    by simp
next
  case (Task_resource_collected t u)
  then show ?thesis
    using registry_inv_shrink [OF assms(1) task_resource_collected_registry(1)
            task_resource_collected_registry(2)]
    by simp
next
  case (Task_resource_failure t r)
  with assms show ?thesis by (simp add: task_resource_failure_registry)
next
  case (Wait_for_resources t d)
  then show ?thesis
    by (intro registry_inv_shrink [OF assms(1)])
       (simp_all add: wait_for_resources_def split: option.splits if_splits)
next
  case (Task_request_rejected t r)
  with assms show ?thesis by (simp add: task_request_rejected_def)
next
  case (Resource_request_rejected sid r)
  then show ?thesis
    by (intro registry_inv_shrink [OF assms(1)])
       (simp_all add: resource_request_rejected_def reset_def Let_def split: if_splits)
next
  case (Task_computed tt)
  then show ?thesis
    using registry_inv_shrink [OF assms(1) task_computed_registry(1) task_computed_registry(2)]
    by simp
next
  case Run
  then show ?thesis
    by (intro registry_inv_shrink [OF assms(1)]) (simp_all add: run_registry)
next
  case (Reset c)
  then show ?thesis
    by (intro registry_inv_shrink [OF assms(1)]) (simp_all add: reset_def)
next
  case (Wait w ttl)
  then show ?thesis
    by (intro registry_inv_shrink [OF assms(1)])
       (simp_all add: wait_def Let_def split: option.splits)
next
  case Session_timeout
  then show ?thesis
    by (intro registry_inv_shrink [OF assms(1)])
       (simp_all add: session_timeout_def session_closed_def reset_def split: if_splits)
next
  case Session_closed
  then show ?thesis
    by (intro registry_inv_shrink [OF assms(1)])
       (simp_all add: session_closed_def reset_def split: if_splits)
next
  case (Change_config c b r)
  then show ?thesis
    by (intro registry_inv_shrink [OF assms(1)])
       (simp_all add: change_config_def change_docker_config_def Let_def split: if_splits)
next
  case (Done_callback r)
  then show ?thesis
    by (intro registry_inv_shrink [OF assms(1)]) (simp_all add: done_callback_def)
next
  case (Register_listener l)
  then show ?thesis
    by (intro registry_inv_shrink [OF assms(1)]) (simp_all add: register_listener_def)
next
  case Quit
  with assms show ?thesis by simp
qed

lemma trace_registry:
  "registry_inv s \<Longrightarrow> admissible s evs \<Longrightarrow> list_all registry_inv (trace s evs)"
proof (induction evs arbitrary: s)
  case Nil
  then show ?case by simp
next
  case (Cons a evs)
  obtain env ev where a: "a = (env, ev)" by (cases a)
  from Cons.prems have "registry_inv (fst (step env s ev))"
    by (simp add: a step_registry)
  moreover from Cons.prems have "admissible (fst (step env s ev)) evs"
    by (simp add: a)
  ultimately show ?case
    using Cons.IH [of "fst (step env s ev)"] by (simp add: a)
qed

lemma init_registry: "registry_inv (fst (init env name cfg dmm bench))"
  by (simp add: init_def change_config_def change_docker_config_def Let_def registry_inv_def
        split: prod.splits if_splits)

text \<open>
  Claim C1 as stated fails in both directions. After \<open>task_given\<close> of \<open>s1\<close> and
  \<open>resource_request_rejected\<close> of \<open>s1\<close>, and likewise after the worker of \<open>s1\<close> has
  completed, \<open>t1\<close> is a key of \<open>task_to_subtask_mapping\<close>, mapped to \<open>s1\<close>, while \<open>s1\<close> is
  not a key of \<open>assigned_subtasks\<close>. After \<open>task_given\<close> of \<open>s1\<close> and of a second subtask
  \<open>s2\<close> of the same task \<open>t1\<close>, \<open>s1\<close> is a key of \<open>assigned_subtasks\<close> while
  \<open>task_to_subtask_mapping\<close> maps its task id to \<open>s2\<close>.
\<close>

theorem registry_maps_diverge:
  "fmlookup (task_to_subtask_mapping
       (exec ex_init [(ex_env, Task_given ex_ctd),
                      (ex_env, Resource_request_rejected ''s1'' ''refused'')])) ''t1''
     = Some ''s1''
   \<and> ''s1'' |\<notin>| fmdom (assigned_subtasks
       (exec ex_init [(ex_env, Task_given ex_ctd),
                      (ex_env, Resource_request_rejected ''s1'' ''refused'')]))
   \<and> fmlookup (task_to_subtask_mapping ex_computed) ''t1'' = Some ''s1''
   \<and> ''s1'' |\<notin>| fmdom (assigned_subtasks ex_computed)
   \<and> fmlookup (assigned_subtasks
        (exec ex_init [(ex_env, Task_given ex_ctd), (ex_env, Task_given ex_ctd2)])) ''s1''
       = Some ex_ctd
   \<and> task_id ex_ctd = ''t1''
   \<and> fmlookup (task_to_subtask_mapping
        (exec ex_init [(ex_env, Task_given ex_ctd), (ex_env, Task_given ex_ctd2)])) ''t1''
       = Some ''s2''"
proof -
  have given: "fst (snd (task_given ex_env ex_init ex_ctd)) = ex_given"
    by (simp add: ex_given_def)
  have rejected: "fmlookup (task_to_subtask_mapping
       (exec ex_init [(ex_env, Task_given ex_ctd),
                      (ex_env, Resource_request_rejected ''s1'' ''refused'')])) ''t1''
     = Some ''s1''
   \<and> ''s1'' |\<notin>| fmdom (assigned_subtasks
       (exec ex_init [(ex_env, Task_given ex_ctd),
                      (ex_env, Resource_request_rejected ''s1'' ''refused'')]))"
    by (simp add: given resource_request_rejected_def reset_def Let_def ex_given_eq)
  have computed: "fmlookup (task_to_subtask_mapping ex_computed) ''t1'' = Some ''s1''
   \<and> ''s1'' |\<notin>| fmdom (assigned_subtasks ex_computed)"
    by (simp add: ex_computed_eq ex_computing_eq)
  have second: "fmlookup (assigned_subtasks
        (exec ex_init [(ex_env, Task_given ex_ctd), (ex_env, Task_given ex_ctd2)])) ''s1''
       = Some ex_ctd
   \<and> task_id ex_ctd = ''t1''
   \<and> fmlookup (task_to_subtask_mapping
        (exec ex_init [(ex_env, Task_given ex_ctd), (ex_env, Task_given ex_ctd2)])) ''t1''
       = Some ''s2''"
  proof -
    have fresh: "subtask_id ex_ctd2 |\<notin>| fmdom (assigned_subtasks ex_given)"
      by (simp add: ex_given_eq ex_ctd2_def)
    show ?thesis
      by (simp add: given task_given_accepts [OF fresh])
         (simp add: ex_given_eq ex_ctd2_def ex_ctd_def)
  qed
  from rejected computed second show ?thesis by simp
qed

text \<open>The second of these sequences is not admissible.\<close>

lemma second_subtask_not_admissible:
  "\<not> admissible ex_init [(ex_env, Task_given ex_ctd), (ex_env, Task_given ex_ctd2)]"
proof -
  have given: "fst (snd (task_given ex_env ex_init ex_ctd)) = ex_given"
    by (simp add: ex_given_def)
  have held: "fmlookup (assigned_subtasks ex_given) ''s1'' = Some ex_ctd"
    "task_id ex_ctd = task_id ex_ctd2" "subtask_id ex_ctd2 |\<notin>| fmdom (assigned_subtasks ex_given)"
    by (simp_all add: ex_given_eq ex_ctd2_def ex_ctd_def)
  have "\<not> admissible_event ex_given (Task_given ex_ctd2)"
    using held by (auto simp: fmpred_iff)
  then show ?thesis by (simp add: given)
qed

text \<open>
  Claim C1, amended. For every sequence of public operations, started after the constructor,
  in which \<open>task_given\<close> is never called for a new subtask of a task that a currently assigned
  subtask belongs to: after each operation, every subtask id that is a key of
  \<open>assigned_subtasks\<close> is the subtask id of its descriptor, and the descriptor's task id is a
  key of \<open>task_to_subtask_mapping\<close>, mapped to that subtask id.
\<close>

theorem registry_forward_invariant:
  assumes "admissible (fst (init env name cfg dmm bench)) evs"
  shows "list_all registry_inv (trace (fst (init env name cfg dmm bench)) evs)"
  using trace_registry [OF init_registry assms] .

theorem registry_forward_invariant_witness:
  "admissible (fst (init ex_env ''node'' ex_config False False))
     [(ex_env, Task_given ex_ctd), (ex_env, Task_resource_collected ''t1'' True),
      (ex_env, Task_computed (ex_thread [] (RDict [(''data'', ''r''), (''result_type'', ''bin'')]))),
      (ex_env, Task_given ex_ctd2)]
   \<and> list_all registry_inv (trace (fst (init ex_env ''node'' ex_config False False))
     [(ex_env, Task_given ex_ctd), (ex_env, Task_resource_collected ''t1'' True),
      (ex_env, Task_computed (ex_thread [] (RDict [(''data'', ''r''), (''result_type'', ''bin'')]))),
      (ex_env, Task_given ex_ctd2)])"
proof -
  have steps: "fst (snd (task_given ex_env ex_init ex_ctd)) = ex_given"
    "fst (snd (task_resource_collected ex_env ex_given ''t1'' True)) = ex_computing"
    "fst (task_computed ex_env ex_computing
       (ex_thread [] (RDict [(''data'', ''r''), (''result_type'', ''bin'')]))) = ex_computed"
    by (simp_all add: ex_given_def ex_computing_def ex_computed_def)
  have adm: "admissible (fst (init ex_env ''node'' ex_config False False))
     [(ex_env, Task_given ex_ctd), (ex_env, Task_resource_collected ''t1'' True),
      (ex_env, Task_computed (ex_thread [] (RDict [(''data'', ''r''), (''result_type'', ''bin'')]))),
      (ex_env, Task_given ex_ctd2)]"
    unfolding ex_init_def [symmetric]
    by (simp add: steps) (simp add: ex_init_eq ex_computed_eq ex_computing_eq)
  from registry_forward_invariant [OF adm] adm show ?thesis by blast
qed


end
